theory Spec2Isabelle
  imports Main "HOL-Library.Sublist"
begin

section \<open>Python strings and integers\<close>

text \<open>
  A Python string is the \<^typ>\<open>string\<close> of its UTF-8 encoding. Equality, concatenation
  and emptiness are the same on the encoding as on the code points, and so is containment,
  since a UTF-8 text occurs in another only at character boundaries.

  \<open>str.lower()\<close> folds every cased character of Unicode, and no table of it is part of
  this theory. Every operation that lower-cases takes the lower-casing function as its
  first argument, called \<open>lower\<close>, and the general theorems hold for every such function
  (one of them needs that the empty string lower-cases to itself, which is stated there).
  On ASCII text \<open>str.lower()\<close> maps the letters \<open>A\<close> to \<open>Z\<close> to \<open>a\<close> to \<open>z\<close> and
  keeps every other character: that is \<open>ascii_lower\<close>, which the worked examples, all
  on ASCII text, pass for \<open>lower\<close>.
\<close>

definition lower_char :: "char \<Rightarrow> char" where
  "lower_char c =
     (case map_of (zip ''ABCDEFGHIJKLMNOPQRSTUVWXYZ'' ''abcdefghijklmnopqrstuvwxyz'') c of
        Some l \<Rightarrow> l
      | None \<Rightarrow> c)"

definition ascii_lower :: "string \<Rightarrow> string" where
  "ascii_lower s = map lower_char s"

text \<open>\<open>sub in s\<close> on strings: \<open>sub\<close> occurs in \<open>s\<close> as a contiguous block.\<close>

fun contains :: "string \<Rightarrow> string \<Rightarrow> bool" where
  "contains sub [] = (sub = [])"
| "contains sub (c # cs) = (prefix sub (c # cs) \<or> contains sub cs)"

text \<open>\<open>str(n)\<close> for an integer, in decimal.\<close>

fun str_nat :: "nat \<Rightarrow> string" where
  "str_nat n =
     (if n < 10 then [''0123456789'' ! n]
      else str_nat (n div 10) @ [''0123456789'' ! (n mod 10)])"

definition str_int :: "int \<Rightarrow> string" where
  "str_int i = (if i < 0 then ''-'' @ str_nat (nat (- i)) else str_nat (nat i))"

text \<open>\<open>sep.join(xs)\<close>.\<close>

fun join :: "string \<Rightarrow> string list \<Rightarrow> string" where
  "join sep [] = []"
| "join sep [x] = x"
| "join sep (x # y # ys) = x @ sep @ join sep (y # ys)"

text \<open>The f-string fragment \<open>'{s}'\<close>: the text between two apostrophes.\<close>

definition quoted :: "string \<Rightarrow> string" where
  "quoted s = [CHR 0x27] @ s @ [CHR 0x27]"

definition newline :: string where
  "newline = [CHR 0x0A]"

datatype py_error = KeyError | ValueError

section \<open>The state model\<close>

text \<open>
  The entities are dictionaries. A key that the source only ever reads as \<open>d[k]\<close> is a
  field; a key that the source reads somewhere as \<open>d.get(k, default)\<close> may be absent and is
  an \<open>option\<close>, with the source's default written out in the accessor.
\<close>

record task =
  t_name :: string
  t_description :: string
  t_assigned_to :: string
  t_due_date :: string
  t_priority :: string
  t_status :: "string option"
  t_created_at :: string

record project =
  p_name :: string
  p_description :: string
  p_due_date :: string
  p_tasks :: "task list option"
  p_created_at :: string

record team_member =
  m_name :: string
  m_role :: string
  m_email :: "string option"
  m_created_at :: string

record pm_state =
  user_name :: "string option"
  projects :: "project list option"
  team_members :: "team_member list option"

text \<open>\<open>task.get("status", "pending")\<close>\<close>

definition get_status :: "task \<Rightarrow> string" where
  "get_status t = (case t_status t of None \<Rightarrow> ''pending'' | Some s \<Rightarrow> s)"

text \<open>\<open>project.get("tasks", [])\<close>\<close>

definition get_tasks :: "project \<Rightarrow> task list" where
  "get_tasks p = (case p_tasks p of None \<Rightarrow> [] | Some ts \<Rightarrow> ts)"

text \<open>\<open>self.state.get("projects", [])\<close> and \<open>self.state.get("team_members", [])\<close>\<close>

definition get_projects :: "pm_state \<Rightarrow> project list" where
  "get_projects s = (case projects s of None \<Rightarrow> [] | Some ps \<Rightarrow> ps)"

definition get_team_members :: "pm_state \<Rightarrow> team_member list" where
  "get_team_members s = (case team_members s of None \<Rightarrow> [] | Some ms \<Rightarrow> ms)"

text \<open>
  The agent object: its state, its session id, and the session store, modelled as the log
  of the calls \<open>session_manager.update_session_state(session_id, state)\<close> in the order
  they were made, each with the state blob it wrote.
\<close>

record agent =
  state :: pm_state
  session_id :: string
  persisted :: "(string \<times> pm_state) list"

datatype state_entry =
  Projects "project list"
| TeamMembers "team_member list"
| UserName string

text \<open>\<open>_update_state(key, value)\<close>: store the value under the key, then write the session.\<close>

definition update_state :: "agent \<Rightarrow> state_entry \<Rightarrow> agent" where
  "update_state a kv =
     (let s = (case kv of
                 Projects v \<Rightarrow> (state a)\<lparr>projects := Some v\<rparr>
               | TeamMembers v \<Rightarrow> (state a)\<lparr>team_members := Some v\<rparr>
               | UserName v \<Rightarrow> (state a)\<lparr>user_name := Some v\<rparr>)
      in a\<lparr>state := s, persisted := persisted a @ [(session_id a, s)]\<rparr>)"

section \<open>Results\<close>

text \<open>
  Every operation returns a dictionary with string keys: an association list in the
  order of the dictionary literal, read with \<^const>\<open>map_of\<close>. A match dictionary
  \<open>{"index": i + 1, "project": project}\<close> is the pair of its two values.
\<close>

datatype pyval =
  VStr string
| VInt int
| VStrList "string list"
| VProjectMatch "int \<times> project"
| VProjectMatches "(int \<times> project) list"
| VMemberMatch "int \<times> team_member"
| VMemberMatches "(int \<times> team_member) list"

type_synonym result = "(string \<times> pyval) list"

section \<open>Name resolution\<close>

text \<open>
  The loop of \<open>find_project_by_name\<close> and \<open>find_team_member_by_name\<close>:
  \<^verbatim>\<open>
  matches = []
  for i, item in enumerate(collection):
      if name.lower() in item["name"].lower():
          matches.append({"index": i + 1, ...: item})
  \<close>
\<close>

fun find_loop ::
  "(string \<Rightarrow> string) \<Rightarrow> ('a \<Rightarrow> string) \<Rightarrow> string \<Rightarrow> (nat \<times> 'a) list
     \<Rightarrow> (int \<times> 'a) list \<Rightarrow> (int \<times> 'a) list" where
  "find_loop lower item_name name [] matches = matches"
| "find_loop lower item_name name ((i, item) # rest) matches =
     (if contains (lower name) (lower (item_name item))
      then find_loop lower item_name name rest (matches @ [(int i + 1, item)])
      else find_loop lower item_name name rest matches)"

definition find_team_member_by_name :: "(string \<Rightarrow> string) \<Rightarrow> agent \<Rightarrow> string \<Rightarrow> result" where
  "find_team_member_by_name lower a name =
     (let team_members = get_team_members (state a);
          matches = find_loop lower m_name name (enumerate 0 team_members) []
      in if length matches = 0 then
           [(''action'', VStr ''find_team_member_by_name''),
            (''status'', VStr ''not_found''),
            (''message'', VStr (''No team member found with name containing '' @ quoted name))]
         else if length matches = 1 then
           [(''action'', VStr ''find_team_member_by_name''),
            (''status'', VStr ''found''),
            (''match'', VMemberMatch (matches ! 0)),
            (''message'', VStr (''Found team member: '' @ m_name (snd (matches ! 0))
               @ '' at index '' @ str_int (fst (matches ! 0))))]
         else
           [(''action'', VStr ''find_team_member_by_name''),
            (''status'', VStr ''multiple_matches''),
            (''matches'', VMemberMatches matches),
            (''message'', VStr (''Found '' @ str_int (int (length matches))
               @ '' team members matching '' @ quoted name))])"

definition find_project_by_name :: "(string \<Rightarrow> string) \<Rightarrow> agent \<Rightarrow> string \<Rightarrow> result" where
  "find_project_by_name lower a name =
     (let projects = get_projects (state a);
          matches = find_loop lower p_name name (enumerate 0 projects) []
      in if length matches = 0 then
           [(''action'', VStr ''find_project_by_name''),
            (''status'', VStr ''not_found''),
            (''message'', VStr (''No project found with name containing '' @ quoted name))]
         else if length matches = 1 then
           [(''action'', VStr ''find_project_by_name''),
            (''status'', VStr ''found''),
            (''match'', VProjectMatch (matches ! 0)),
            (''message'', VStr (''Found project: '' @ p_name (snd (matches ! 0))
               @ '' at index '' @ str_int (fst (matches ! 0))))]
         else
           [(''action'', VStr ''find_project_by_name''),
            (''status'', VStr ''multiple_matches''),
            (''matches'', VProjectMatches matches),
            (''message'', VStr (''Found '' @ str_int (int (length matches))
               @ '' projects matching '' @ quoted name))])"

text \<open>
  The resolution as the specification words it: the 1-based positions, in collection
  order, of the items whose lower-cased name contains the lower-cased query, each with
  its item.
\<close>

definition spec_matches ::
  "(string \<Rightarrow> string) \<Rightarrow> ('a \<Rightarrow> string) \<Rightarrow> string \<Rightarrow> 'a list \<Rightarrow> (int \<times> 'a) list" where
  "spec_matches lower item_name query xs =
     [(int i + 1, xs ! i). i \<leftarrow> [0..<length xs],
        contains (lower query) (lower (item_name (xs ! i)))]"

section \<open>The library call \<open>datetime.strptime(due_date, "%Y-%m-%d")\<close>\<close>

text \<open>
  On a string the call either returns a date or raises \<open>ValueError\<close>. \<open>add_project\<close>
  uses only which of the two happens, so it takes the verdict of the library as its first
  argument, \<open>valid_Ymd\<close>: true when the call returns. The general theorems hold for
  every such verdict.

  The standard library compiles the format to the regular expression
  \<^verbatim>\<open>(?P<Y>\d\d\d\d)-(?P<m>1[0-2]|0[1-9]|[1-9])-(?P<d>3[0-1]|[1-2]\d|0[1-9]|[1-9]| [1-9])\<close>,
  matches it at the start of the text, raises \<open>ValueError\<close> when it does not match or
  when text remains after the match, and raises \<open>ValueError\<close> again when the three numbers
  are not a calendar date (the year 0, the 30th of February). The alternatives of a group
  are tried in the order written. In a string pattern \<open>\d\<close> is any decimal digit of
  Unicode, and no table of them is part of this theory. The definitions below are the
  parser on ASCII text, where \<open>\d\<close> is one of \<open>0\<close> to \<open>9\<close>; \<open>ascii_valid_Ymd\<close> is its
  verdict, which the worked examples, all on ASCII text, pass for \<open>valid_Ymd\<close>.
\<close>

definition ascii_digit :: "char \<Rightarrow> bool" where
  "ascii_digit c = (c \<in> set ''0123456789'')"

definition digit_val :: "char \<Rightarrow> nat" where
  "digit_val c =
     (case map_of (zip ''0123456789'' [0, 1, 2, 3, 4, 5, 6, 7, 8, 9]) c of
        Some n \<Rightarrow> n
      | None \<Rightarrow> 0)"

definition month_alts :: "string \<Rightarrow> (nat \<times> string) list" where
  "month_alts s =
     (case s of
        a # b # r \<Rightarrow>
          (if a = CHR ''1'' \<and> b \<in> set ''012'' then [(10 + digit_val b, r)] else []) @
          (if a = CHR ''0'' \<and> b \<in> set ''123456789'' then [(digit_val b, r)] else [])
      | _ \<Rightarrow> []) @
     (case s of
        a # r \<Rightarrow> (if a \<in> set ''123456789'' then [(digit_val a, r)] else [])
      | [] \<Rightarrow> [])"

definition day_alts :: "string \<Rightarrow> (nat \<times> string) list" where
  "day_alts s =
     (case s of
        a # b # r \<Rightarrow>
          (if a = CHR ''3'' \<and> b \<in> set ''01'' then [(30 + digit_val b, r)] else []) @
          (if a \<in> set ''12'' \<and> ascii_digit b then [(10 * digit_val a + digit_val b, r)] else []) @
          (if a = CHR ''0'' \<and> b \<in> set ''123456789'' then [(digit_val b, r)] else [])
      | _ \<Rightarrow> []) @
     (case s of
        a # r \<Rightarrow> (if a \<in> set ''123456789'' then [(digit_val a, r)] else [])
      | [] \<Rightarrow> []) @
     (case s of
        a # b # r \<Rightarrow>
          (if a = CHR '' '' \<and> b \<in> set ''123456789'' then [(digit_val b, r)] else [])
      | _ \<Rightarrow> [])"

definition after_dash :: "string \<Rightarrow> string option" where
  "after_dash s = (case s of c # r \<Rightarrow> if c = CHR ''-'' then Some r else None | [] \<Rightarrow> None)"

text \<open>The match: year, month, day and the text left after the match.\<close>

definition regex_match_Ymd :: "string \<Rightarrow> (nat \<times> nat \<times> nat \<times> string) option" where
  "regex_match_Ymd s =
     (case s of
        y1 # y2 # y3 # y4 # rest \<Rightarrow>
          if ascii_digit y1 \<and> ascii_digit y2 \<and> ascii_digit y3 \<and> ascii_digit y4 then
            (case after_dash rest of
               None \<Rightarrow> None
             | Some rest1 \<Rightarrow>
                 (case [(m, d, r2). (m, r) \<leftarrow> month_alts rest1,
                          (d, r2) \<leftarrow> (case after_dash r of None \<Rightarrow> [] | Some r1 \<Rightarrow> day_alts r1)] of
                    [] \<Rightarrow> None
                  | (m, d, r2) # _ \<Rightarrow>
                      Some (1000 * digit_val y1 + 100 * digit_val y2 + 10 * digit_val y3
                              + digit_val y4, m, d, r2)))
          else None
      | _ \<Rightarrow> None)"

definition is_leap :: "nat \<Rightarrow> bool" where
  "is_leap y = (y mod 4 = 0 \<and> (y mod 100 \<noteq> 0 \<or> y mod 400 = 0))"

definition days_in_month :: "nat \<Rightarrow> nat \<Rightarrow> nat" where
  "days_in_month y m =
     (if m = 2 then (if is_leap y then 29 else 28)
      else if m \<in> set [4, 6, 9, 11] then 30
      else 31)"

definition ascii_strptime_Ymd :: "string \<Rightarrow> py_error + (nat \<times> nat \<times> nat)" where
  "ascii_strptime_Ymd s =
     (case regex_match_Ymd s of
        None \<Rightarrow> Inl ValueError
      | Some (y, m, d, r) \<Rightarrow>
          if r \<noteq> [] then Inl ValueError
          else if y < 1 \<or> days_in_month y m < d then Inl ValueError
          else Inr (y, m, d))"

definition ascii_valid_Ymd :: "string \<Rightarrow> bool" where
  "ascii_valid_Ymd s = (\<not> isl (ascii_strptime_Ymd s))"

section \<open>Entity operations\<close>

text \<open>
  Every operation takes the agent and returns the agent after the call together with the
  result dictionary. \<open>today\<close> stands for \<open>datetime.now().strftime("%Y-%m-%d")\<close>.
\<close>

definition add_project ::
  "(string \<Rightarrow> bool) \<Rightarrow> string \<Rightarrow> agent \<Rightarrow> string \<Rightarrow> string option \<Rightarrow> string option
     \<Rightarrow> agent \<times> result" where
  "add_project valid_Ymd today a name description due_date =
     (let description = (case description of None \<Rightarrow> ''No description provided'' | Some d \<Rightarrow> d);
          due_date = (case due_date of None \<Rightarrow> ''2025-12-31'' | Some d \<Rightarrow> d)
      in if due_date \<noteq> [] \<and> \<not> valid_Ymd due_date then
           (a, [(''action'', VStr ''add_project''),
                (''status'', VStr ''error''),
                (''message'', VStr (''Invalid date format: '' @ due_date
                   @ ''. Please use YYYY-MM-DD format.''))])
         else
           let projects = get_projects (state a);
               new_project = \<lparr>p_name = name, p_description = description,
                              p_due_date = due_date, p_tasks = Some [], p_created_at = today\<rparr>;
               projects = projects @ [new_project]
           in (update_state a (Projects projects),
               [(''action'', VStr ''add_project''),
                (''project'', VStr name),
                (''message'', VStr (''Added project: '' @ name @ '' with due date '' @ due_date))]))"

text \<open>
  \<open>projects[zero_based_index]["tasks"]\<close> raises \<open>KeyError\<close> on a project without the key,
  before anything is written.
\<close>

definition add_task ::
  "string \<Rightarrow> agent \<Rightarrow> int \<Rightarrow> string \<Rightarrow> string option \<Rightarrow> string option \<Rightarrow> string option
     \<Rightarrow> string option \<Rightarrow> py_error + (agent \<times> result)" where
  "add_task today a project_index name assigned_to description due_date priority =
     (let projects = get_projects (state a);
          zero_based_index = project_index - 1
      in if zero_based_index < 0 \<or> zero_based_index \<ge> int (length projects) then
           Inr (a, [(''action'', VStr ''add_task''),
                    (''status'', VStr ''error''),
                    (''message'', VStr (''Invalid project index: '' @ str_int project_index
                       @ ''. Please choose between 1 and '' @ str_int (int (length projects))
                       @ ''.''))])
         else
           let assigned_to = (case assigned_to of None \<Rightarrow> ''Unassigned'' | Some v \<Rightarrow> v);
               description = (case description of None \<Rightarrow> ''No description provided'' | Some v \<Rightarrow> v);
               due_date = (case due_date of None \<Rightarrow> ''2025-12-31'' | Some v \<Rightarrow> v);
               priority = (case priority of None \<Rightarrow> ''medium'' | Some v \<Rightarrow> v);
               new_task = \<lparr>t_name = name, t_description = description,
                           t_assigned_to = assigned_to, t_due_date = due_date,
                           t_priority = priority, t_status = Some ''pending'',
                           t_created_at = today\<rparr>;
               project = projects ! nat zero_based_index
           in (case p_tasks project of
                 None \<Rightarrow> Inl KeyError
               | Some tasks \<Rightarrow>
                   let projects = projects[nat zero_based_index :=
                                             project\<lparr>p_tasks := Some (tasks @ [new_task])\<rparr>]
                   in Inr (update_state a (Projects projects),
                           [(''action'', VStr ''add_task''),
                            (''task'', VStr name),
                            (''project'', VStr (p_name project)),
                            (''message'', VStr (''Added task '' @ quoted name @ '' to project ''
                               @ quoted (p_name project)))])))"

definition update_team_member ::
  "agent \<Rightarrow> int \<Rightarrow> string option \<Rightarrow> string option \<Rightarrow> string option \<Rightarrow> agent \<times> result" where
  "update_team_member a index name role email =
     (let team_members = get_team_members (state a);
          zero_based_index = index - 1
      in if zero_based_index < 0 \<or> zero_based_index \<ge> int (length team_members) then
           (a, [(''action'', VStr ''update_team_member''),
                (''status'', VStr ''error''),
                (''message'', VStr (''Invalid team member index: '' @ str_int index
                   @ ''. Please choose between 1 and '' @ str_int (int (length team_members))
                   @ ''.''))])
         else
           let member = team_members ! nat zero_based_index;
               member = (case name of None \<Rightarrow> member | Some v \<Rightarrow> member\<lparr>m_name := v\<rparr>);
               member = (case role of None \<Rightarrow> member | Some v \<Rightarrow> member\<lparr>m_role := v\<rparr>);
               member = (case email of None \<Rightarrow> member | Some v \<Rightarrow> member\<lparr>m_email := Some v\<rparr>);
               team_members = team_members[nat zero_based_index := member]
           in (update_state a (TeamMembers team_members),
               [(''action'', VStr ''update_team_member''),
                (''member'', VStr (m_name member)),
                (''message'', VStr (''Updated team member: '' @ m_name member))]))"

text \<open>\<open>xs.pop(i)\<close> for \<open>0 \<le> i < len(xs)\<close>: the list without its element \<open>i\<close>.\<close>

definition pop_at :: "nat \<Rightarrow> 'a list \<Rightarrow> 'a list" where
  "pop_at i xs = take i xs @ drop (Suc i) xs"

definition delete_team_member :: "agent \<Rightarrow> int \<Rightarrow> agent \<times> result" where
  "delete_team_member a index =
     (let team_members = get_team_members (state a);
          zero_based_index = index - 1
      in if zero_based_index < 0 \<or> zero_based_index \<ge> int (length team_members) then
           (a, [(''action'', VStr ''delete_team_member''),
                (''status'', VStr ''error''),
                (''message'', VStr (''Invalid team member index: '' @ str_int index
                   @ ''. Please choose between 1 and '' @ str_int (int (length team_members))
                   @ ''.''))])
         else
           let deleted_member = team_members ! nat zero_based_index;
               team_members = pop_at (nat zero_based_index) team_members
           in (update_state a (TeamMembers team_members),
               [(''action'', VStr ''delete_team_member''),
                (''member'', VStr (m_name deleted_member)),
                (''message'', VStr (''Deleted team member: '' @ m_name deleted_member))]))"

definition delete_project :: "agent \<Rightarrow> int \<Rightarrow> agent \<times> result" where
  "delete_project a index =
     (let projects = get_projects (state a);
          zero_based_index = index - 1
      in if zero_based_index < 0 \<or> zero_based_index \<ge> int (length projects) then
           (a, [(''action'', VStr ''delete_project''),
                (''status'', VStr ''error''),
                (''message'', VStr (''Invalid project index: '' @ str_int index
                   @ ''. Please choose between 1 and '' @ str_int (int (length projects))
                   @ ''.''))])
         else
           let deleted_project = projects ! nat zero_based_index;
               projects = pop_at (nat zero_based_index) projects
           in (update_state a (Projects projects),
               [(''action'', VStr ''delete_project''),
                (''project'', VStr (p_name deleted_project)),
                (''message'', VStr (''Deleted project: '' @ p_name deleted_project))]))"

text \<open>\<open>[f"{match['index']}. {match['project']['name']}" for match in matches]\<close>\<close>

definition project_list :: "(int \<times> project) list \<Rightarrow> string list" where
  "project_list matches = map (\<lambda>match. str_int (fst match) @ ''. '' @ p_name (snd match)) matches"

definition add_task_by_project_name ::
  "(string \<Rightarrow> string) \<Rightarrow> string \<Rightarrow> agent \<Rightarrow> string \<Rightarrow> string \<Rightarrow> string option
     \<Rightarrow> string option \<Rightarrow> string option \<Rightarrow> string option \<Rightarrow> py_error + (agent \<times> result)" where
  "add_task_by_project_name lower today a project_name task_name assigned_to description due_date
       priority =
     (let find_result = find_project_by_name lower a project_name
      in if map_of find_result ''status'' = Some (VStr ''not_found'') then
           Inr (a, [(''action'', VStr ''add_task_by_project_name''),
                    (''status'', VStr ''error''),
                    (''message'', VStr (''Could not find project '' @ quoted project_name
                       @ ''. Please check the project name or create it first.''))])
         else if map_of find_result ''status'' = Some (VStr ''multiple_matches'') then
           (case map_of find_result ''matches'' of
              Some (VProjectMatches matches) \<Rightarrow>
                Inr (a, [(''action'', VStr ''add_task_by_project_name''),
                         (''status'', VStr ''error''),
                         (''message'', VStr (''Found multiple projects matching ''
                            @ quoted project_name @ '':'' @ newline
                            @ join newline (project_list matches)
                            @ newline @ ''Please be more specific.''))])
            | _ \<Rightarrow> Inl KeyError)
         else
           (case map_of find_result ''match'' of
              Some (VProjectMatch match) \<Rightarrow>
                add_task today a (fst match) task_name assigned_to description due_date priority
            | _ \<Rightarrow> Inl KeyError))"

text \<open>
  The two search loops of \<open>update_task_status\<close>,
  \<^verbatim>\<open>
  found = None
  for item in collection:
      if name.lower() in item["name"].lower():
          found = item
          break
  \<close>
  The item found is a reference into the collection, and the status is written through it;
  the model returns the position of the item, so that the write can be made at that
  position. (No dictionary object stands at two positions of the state.)
\<close>

fun first_match ::
  "(string \<Rightarrow> string) \<Rightarrow> ('a \<Rightarrow> string) \<Rightarrow> string \<Rightarrow> 'a list \<Rightarrow> nat \<Rightarrow> nat option" where
  "first_match lower item_name name [] i = None"
| "first_match lower item_name name (item # rest) i =
     (if contains (lower name) (lower (item_name item)) then Some i
      else first_match lower item_name name rest (Suc i))"

definition update_task_status ::
  "(string \<Rightarrow> string) \<Rightarrow> agent \<Rightarrow> string \<Rightarrow> string \<Rightarrow> string \<Rightarrow> agent \<times> result" where
  "update_task_status lower a project_name task_name new_status =
     (let projects = get_projects (state a)
      in case first_match lower p_name project_name projects 0 of
           None \<Rightarrow>
             (a, [(''action'', VStr ''update_task_status''),
                  (''status'', VStr ''error''),
                  (''message'', VStr (''Could not find project containing ''
                     @ quoted project_name @ ''.''))])
         | Some pi \<Rightarrow>
             let project_found = projects ! pi;
                 tasks = get_tasks project_found
             in (case first_match lower t_name task_name tasks 0 of
                   None \<Rightarrow>
                     (a, [(''action'', VStr ''update_task_status''),
                          (''status'', VStr ''error''),
                          (''message'', VStr (''Could not find task '' @ quoted task_name
                             @ '' in project '' @ quoted (p_name project_found) @ ''.''))])
                 | Some ti \<Rightarrow>
                     let task_found = tasks ! ti;
                         old_status = get_status task_found;
                         task_found = task_found\<lparr>t_status := Some (lower new_status)\<rparr>;
                         projects = projects[pi :=
                                      project_found\<lparr>p_tasks := Some (tasks[ti := task_found])\<rparr>]
                     in (update_state a (Projects projects),
                         [(''action'', VStr ''update_task_status''),
                          (''status'', VStr ''success''),
                          (''project'', VStr (p_name project_found)),
                          (''task'', VStr (t_name task_found)),
                          (''old_status'', VStr old_status),
                          (''new_status'', VStr new_status),
                          (''message'', VStr (''Updated task '' @ quoted (t_name task_found)
                             @ '' status from '' @ quoted old_status @ '' to ''
                             @ quoted new_status @ '' in project ''
                             @ quoted (p_name project_found) @ ''.''))])))"

text \<open>
  The inner loop of \<open>delete_tasks_by_name\<close>: the tasks kept so far, and the running count
  of the tasks dropped.
\<close>

fun delete_tasks_inner ::
  "(string \<Rightarrow> string) \<Rightarrow> string \<Rightarrow> task list \<Rightarrow> task list \<Rightarrow> int \<Rightarrow> task list \<times> int" where
  "delete_tasks_inner lower task_name [] remaining_tasks deleted_count =
     (remaining_tasks, deleted_count)"
| "delete_tasks_inner lower task_name (task # rest) remaining_tasks deleted_count =
     (if \<not> contains (lower task_name) (lower (t_name task))
      then delete_tasks_inner lower task_name rest (remaining_tasks @ [task]) deleted_count
      else delete_tasks_inner lower task_name rest remaining_tasks (deleted_count + 1))"

text \<open>
  The outer loop: the projects already visited (as the loop left them), the count, and the
  names of the projects it changed. A project that loses no task is not written to.
\<close>

fun delete_tasks_loop ::
  "(string \<Rightarrow> string) \<Rightarrow> string \<Rightarrow> project list \<Rightarrow> project list \<Rightarrow> int \<Rightarrow> string list
     \<Rightarrow> project list \<times> int \<times> string list" where
  "delete_tasks_loop lower task_name [] visited deleted_count affected_projects =
     (visited, deleted_count, affected_projects)"
| "delete_tasks_loop lower task_name (project # rest) visited deleted_count affected_projects =
     (let tasks = get_tasks project;
          original_task_count = length tasks;
          (remaining_tasks, deleted_count) =
             delete_tasks_inner lower task_name tasks [] deleted_count
      in if length remaining_tasks < original_task_count
         then delete_tasks_loop lower task_name rest
                (visited @ [project\<lparr>p_tasks := Some remaining_tasks\<rparr>]) deleted_count
                (affected_projects @ [p_name project])
         else delete_tasks_loop lower task_name rest (visited @ [project]) deleted_count
                affected_projects)"

definition delete_tasks_by_name :: "(string \<Rightarrow> string) \<Rightarrow> agent \<Rightarrow> string \<Rightarrow> agent \<times> result" where
  "delete_tasks_by_name lower a task_name =
     (let projects = get_projects (state a)
      in if projects = [] then
           (a, [(''action'', VStr ''delete_tasks_by_name''),
                (''status'', VStr ''error''),
                (''message'', VStr ''No projects found to search for tasks.'')])
         else
           let (projects, deleted_count, affected_projects) =
                 delete_tasks_loop lower task_name projects [] 0 [];
               a = update_state a (Projects projects)
           in if deleted_count = 0 then
                (a, [(''action'', VStr ''delete_tasks_by_name''),
                     (''status'', VStr ''not_found''),
                     (''task_name'', VStr task_name),
                     (''message'', VStr (''No tasks found with name containing ''
                        @ quoted task_name @ ''.''))])
              else
                let affected_list = join '', '' affected_projects
                in (a, [(''action'', VStr ''delete_tasks_by_name''),
                        (''status'', VStr ''success''),
                        (''task_name'', VStr task_name),
                        (''deleted_count'', VInt deleted_count),
                        (''affected_projects'', VStrList affected_projects),
                        (''message'', VStr (''Deleted '' @ str_int deleted_count
                           @ '' task(s) containing '' @ quoted task_name
                           @ '' from project(s): '' @ affected_list))]))"

text \<open>The loop of \<open>remove_completed_tasks\<close>, with the same accumulators.\<close>

fun remove_completed_loop ::
  "project list \<Rightarrow> project list \<Rightarrow> int \<Rightarrow> string list \<Rightarrow> project list \<times> int \<times> string list" where
  "remove_completed_loop [] visited removed_count affected_projects =
     (visited, removed_count, affected_projects)"
| "remove_completed_loop (project # rest) visited removed_count affected_projects =
     (let tasks = get_tasks project;
          original_count = length tasks;
          remaining_tasks = filter (\<lambda>task. get_status task \<noteq> ''completed'') tasks
      in if length remaining_tasks < original_count
         then remove_completed_loop rest
                (visited @ [project\<lparr>p_tasks := Some remaining_tasks\<rparr>])
                (removed_count + (int original_count - int (length remaining_tasks)))
                (affected_projects @ [p_name project])
         else remove_completed_loop rest (visited @ [project]) removed_count affected_projects)"

definition remove_completed_tasks :: "agent \<Rightarrow> agent \<times> result" where
  "remove_completed_tasks a =
     (let projects = get_projects (state a)
      in if projects = [] then
           (a, [(''action'', VStr ''remove_completed_tasks''),
                (''status'', VStr ''error''),
                (''message'', VStr ''No projects found.'')])
         else
           let (projects, removed_count, affected_projects) =
                 remove_completed_loop projects [] 0 [];
               a = update_state a (Projects projects)
           in if removed_count = 0 then
                (a, [(''action'', VStr ''remove_completed_tasks''),
                     (''status'', VStr ''no_tasks''),
                     (''message'', VStr ''No completed tasks found to remove.'')])
              else
                let affected_list = join '', '' affected_projects
                in (a, [(''action'', VStr ''remove_completed_tasks''),
                        (''status'', VStr ''success''),
                        (''removed_count'', VInt removed_count),
                        (''affected_projects'', VStrList affected_projects),
                        (''message'', VStr (''Removed '' @ str_int removed_count
                           @ '' completed task(s) from project(s): '' @ affected_list))]))"

section \<open>Example data\<close>

definition example_task :: "string \<Rightarrow> string \<Rightarrow> task" where
  "example_task name status =
     \<lparr>t_name = name, t_description = ''No description provided'', t_assigned_to = ''Unassigned'',
      t_due_date = ''2025-12-31'', t_priority = ''medium'', t_status = Some status,
      t_created_at = ''2025-01-15''\<rparr>"

definition example_project :: "string \<Rightarrow> task list \<Rightarrow> project" where
  "example_project name tasks =
     \<lparr>p_name = name, p_description = ''No description provided'', p_due_date = ''2025-12-31'',
      p_tasks = Some tasks, p_created_at = ''2025-01-15''\<rparr>"

definition example_member :: "string \<Rightarrow> string \<Rightarrow> team_member" where
  "example_member name role =
     \<lparr>m_name = name, m_role = role, m_email = Some (name @ ''@company.com''),
      m_created_at = ''2025-01-15''\<rparr>"

definition example_agent :: "project list \<Rightarrow> team_member list \<Rightarrow> agent" where
  "example_agent ps ms =
     \<lparr>state = \<lparr>user_name = Some ''Project Manager'', projects = Some ps, team_members = Some ms\<rparr>,
      session_id = ''session-1'', persisted = []\<rparr>"

definition website_agent :: agent where
  "website_agent =
     example_agent [example_project ''Website Redesign'' [], example_project ''Website Launch'' [],
                    example_project ''Mobile App'' []]
                   [example_member ''Jim Halpert'' ''Sales'', example_member ''Pam Beesly'' ''Design'']"

definition alpha_agent :: agent where
  "alpha_agent = example_agent [example_project ''Alpha'' [example_task ''Write spec'' ''pending'']] []"

definition design_agent :: agent where
  "design_agent =
     example_agent
       [example_project ''Website'' [example_task ''Design homepage'' ''pending'',
                                     example_task ''Design logo'' ''completed''],
        example_project ''Mobile App'' [example_task ''Set up CI'' ''Completed'',
                                        example_task ''Write tests'' ''pending'']]
       []"

section \<open>The bulk operations in the specification's words\<close>

text \<open>A task matches a query when its lower-cased name contains the lower-cased query.\<close>

definition task_matches :: "(string \<Rightarrow> string) \<Rightarrow> string \<Rightarrow> task \<Rightarrow> bool" where
  "task_matches lower query t = contains (lower query) (lower (t_name t))"

text \<open>A task is completed when its status is exactly the string \<open>completed\<close>.\<close>

definition is_completed :: "task \<Rightarrow> bool" where
  "is_completed t = (get_status t = ''completed'')"

text \<open>
  Removing from every project the tasks that satisfy a predicate; a project with no such
  task is left as it is.
\<close>

definition without_tasks :: "(task \<Rightarrow> bool) \<Rightarrow> project \<Rightarrow> project" where
  "without_tasks P p =
     (if list_ex P (get_tasks p) then p\<lparr>p_tasks := Some (filter (\<lambda>t. \<not> P t) (get_tasks p))\<rparr>
      else p)"

definition removed_total :: "(task \<Rightarrow> bool) \<Rightarrow> project list \<Rightarrow> int" where
  "removed_total P ps = int (sum_list (map (\<lambda>p. length (filter P (get_tasks p))) ps))"

definition affected_names :: "(task \<Rightarrow> bool) \<Rightarrow> project list \<Rightarrow> string list" where
  "affected_names P ps = map p_name (filter (\<lambda>p. list_ex P (get_tasks p)) ps)"

section \<open>Facts about the example data\<close>

lemma website_agent_projects:
  "get_projects (state website_agent) =
     [example_project ''Website Redesign'' [], example_project ''Website Launch'' [],
      example_project ''Mobile App'' []]"
  by (simp add: website_agent_def example_agent_def get_projects_def)

lemma website_agent_members:
  "get_team_members (state website_agent) =
     [example_member ''Jim Halpert'' ''Sales'', example_member ''Pam Beesly'' ''Design'']"
  by (simp add: website_agent_def example_agent_def get_team_members_def)

lemma alpha_agent_projects:
  "get_projects (state alpha_agent) = [example_project ''Alpha'' [example_task ''Write spec'' ''pending'']]"
  by (simp add: alpha_agent_def example_agent_def get_projects_def)

lemma design_agent_projects:
  "get_projects (state design_agent) =
     [example_project ''Website'' [example_task ''Design homepage'' ''pending'',
                                   example_task ''Design logo'' ''completed''],
      example_project ''Mobile App'' [example_task ''Set up CI'' ''Completed'',
                                      example_task ''Write tests'' ''pending'']]"
  by (simp add: design_agent_def example_agent_def get_projects_def)

section \<open>Properties of name resolution\<close>

lemma find_loop_filter:
  "find_loop lower g q ixs acc =
     acc @ map (\<lambda>(i, x). (int i + 1, x)) (filter (\<lambda>(i, x). contains (lower q) (lower (g x))) ixs)"
  by (induction ixs arbitrary: acc) auto

lemma comprehension_filter:
  "[f i. i \<leftarrow> is, Q i] = map f (filter Q is)"
  by (induction "is") auto

lemma enumerate_nth: "enumerate 0 xs = map (\<lambda>i. (i, xs ! i)) [0..<length xs]"
  by (rule nth_equalityI) (simp_all add: nth_enumerate_eq)

lemma find_loop_spec: "find_loop lower g q (enumerate 0 xs) [] = spec_matches lower g q xs"
  unfolding spec_matches_def find_loop_filter comprehension_filter enumerate_nth
  by (simp add: filter_map comp_def)

lemma contains_sublist: "contains s t = sublist s t"
  by (induction t) (auto simp: sublist_Cons_right)

lemma contains_empty: "contains [] t"
  by (cases t) auto

lemma spec_matches_empty_query:
  "lower [] = [] \<Longrightarrow> spec_matches lower g [] xs = [(int i + 1, xs ! i). i \<leftarrow> [0..<length xs]]"
  by (simp add: spec_matches_def contains_empty)

lemma find_project_status:
  "map_of (find_project_by_name lower a q) ''status'' =
     Some (VStr (case spec_matches lower p_name q (get_projects (state a)) of
                   [] \<Rightarrow> ''not_found'' | [m] \<Rightarrow> ''found'' | _ \<Rightarrow> ''multiple_matches''))"
  by (simp add: find_project_by_name_def find_loop_spec Let_def split: list.splits)

lemma find_project_match:
  "spec_matches lower p_name q (get_projects (state a)) = [m] \<Longrightarrow>
   map_of (find_project_by_name lower a q) ''match'' = Some (VProjectMatch m)"
  by (simp add: find_project_by_name_def find_loop_spec Let_def)

lemma find_project_matches:
  "1 < length (spec_matches lower p_name q (get_projects (state a))) \<Longrightarrow>
   map_of (find_project_by_name lower a q) ''matches'' =
     Some (VProjectMatches (spec_matches lower p_name q (get_projects (state a))))"
  by (auto simp: find_project_by_name_def find_loop_spec Let_def)

lemma find_member_status:
  "map_of (find_team_member_by_name lower a q) ''status'' =
     Some (VStr (case spec_matches lower m_name q (get_team_members (state a)) of
                   [] \<Rightarrow> ''not_found'' | [m] \<Rightarrow> ''found'' | _ \<Rightarrow> ''multiple_matches''))"
  by (simp add: find_team_member_by_name_def find_loop_spec Let_def split: list.splits)

lemma find_member_match:
  "spec_matches lower m_name q (get_team_members (state a)) = [m] \<Longrightarrow>
   map_of (find_team_member_by_name lower a q) ''match'' = Some (VMemberMatch m)"
  by (simp add: find_team_member_by_name_def find_loop_spec Let_def)

lemma find_member_matches:
  "1 < length (spec_matches lower m_name q (get_team_members (state a))) \<Longrightarrow>
   map_of (find_team_member_by_name lower a q) ''matches'' =
     Some (VMemberMatches (spec_matches lower m_name q (get_team_members (state a))))"
  by (auto simp: find_team_member_by_name_def find_loop_spec Let_def)

lemma spec_matches_three:
  "spec_matches lower g q [x1, x2, x3] =
     (if contains (lower q) (lower (g x1)) then [(1, x1)] else []) @
     (if contains (lower q) (lower (g x2)) then [(2, x2)] else []) @
     (if contains (lower q) (lower (g x3)) then [(3, x3)] else [])"
  by (simp add: spec_matches_def upt_rec[of 0] upt_rec[of 1] upt_rec[of 2])

lemma website_example:
  assumes "map p_name (get_projects (state b)) = [''Website Redesign'', ''Website Launch'', ''Mobile App'']"
    and "lower ''web'' = ''web''" "lower ''mobile'' = ''mobile''" "lower ''zzz'' = ''zzz''"
    and "lower ''Website Redesign'' = ''website redesign''"
    and "lower ''Website Launch'' = ''website launch''"
    and "lower ''Mobile App'' = ''mobile app''"
  shows "\<exists>p1 p2 p3. get_projects (state b) = [p1, p2, p3]
     \<and> map_of (find_project_by_name lower b ''web'') ''status'' = Some (VStr ''multiple_matches'')
     \<and> map_of (find_project_by_name lower b ''web'') ''matches'' = Some (VProjectMatches [(1, p1), (2, p2)])
     \<and> map_of (find_project_by_name lower b ''mobile'') ''status'' = Some (VStr ''found'')
     \<and> map_of (find_project_by_name lower b ''mobile'') ''match'' = Some (VProjectMatch (3, p3))
     \<and> map_of (find_project_by_name lower b ''zzz'') ''status'' = Some (VStr ''not_found'')"
proof -
  from assms(1) obtain p1 p2 p3 where ps: "get_projects (state b) = [p1, p2, p3]"
    and n: "p_name p1 = ''Website Redesign''" "p_name p2 = ''Website Launch''" "p_name p3 = ''Mobile App''"
    by (auto simp: map_eq_Cons_conv)
  have web: "spec_matches lower p_name ''web'' [p1, p2, p3] = [(1, p1), (2, p2)]"
    by (simp add: spec_matches_three n assms(2-))
  have mobile: "spec_matches lower p_name ''mobile'' [p1, p2, p3] = [(3, p3)]"
    by (simp add: spec_matches_three n assms(2-))
  have zzz: "spec_matches lower p_name ''zzz'' [p1, p2, p3] = []"
    by (simp add: spec_matches_three n assms(2-))
  have a: "map_of (find_project_by_name lower b ''web'') ''matches'' = Some (VProjectMatches [(1, p1), (2, p2)])"
    using find_project_matches[where lower = lower and q = "''web''" and a = b]
    by (simp add: ps web)
  have c: "map_of (find_project_by_name lower b ''mobile'') ''match'' = Some (VProjectMatch (3, p3))"
    using find_project_match[where lower = lower and q = "''mobile''" and a = b and m = "(3, p3)"]
    by (simp add: ps mobile)
  show ?thesis
    by (rule exI[of _ p1], rule exI[of _ p2], rule exI[of _ p3])
       (simp add: ps find_project_status web mobile zzz a c)
qed

text \<open>
  C1. The name-resolution operations lower-case the query, test substring containment
  against each lower-cased item name in collection order, and report \<open>not_found\<close> on no
  match, \<open>found\<close> with the single 1-based index and item on one match, and
  \<open>multiple_matches\<close> with all matching (index, item) pairs in collection order on more
  than one, whatever the lower-casing function is. For the project names Website
  Redesign, Website Launch, Mobile App, the query \<open>web\<close> gives \<open>multiple_matches\<close> with
  indices 1 and 2, \<open>mobile\<close> gives \<open>found\<close> at index 3, and \<open>zzz\<close> gives \<open>not_found\<close>;
  what this needs of the lower-casing is its value on these six strings, as \<open>str.lower()\<close>
  gives it.
\<close>

theorem find_by_name_tristate:
  "map_of (find_project_by_name lower a q) ''status'' =
     Some (VStr (case spec_matches lower p_name q (get_projects (state a)) of
                   [] \<Rightarrow> ''not_found'' | [m] \<Rightarrow> ''found'' | _ \<Rightarrow> ''multiple_matches''))
   \<and> (\<forall>m. spec_matches lower p_name q (get_projects (state a)) = [m] \<longrightarrow>
          map_of (find_project_by_name lower a q) ''match'' = Some (VProjectMatch m))
   \<and> (1 < length (spec_matches lower p_name q (get_projects (state a))) \<longrightarrow>
          map_of (find_project_by_name lower a q) ''matches'' =
            Some (VProjectMatches (spec_matches lower p_name q (get_projects (state a)))))
   \<and> map_of (find_team_member_by_name lower a q) ''status'' =
     Some (VStr (case spec_matches lower m_name q (get_team_members (state a)) of
                   [] \<Rightarrow> ''not_found'' | [m] \<Rightarrow> ''found'' | _ \<Rightarrow> ''multiple_matches''))
   \<and> (\<forall>m. spec_matches lower m_name q (get_team_members (state a)) = [m] \<longrightarrow>
          map_of (find_team_member_by_name lower a q) ''match'' = Some (VMemberMatch m))
   \<and> (1 < length (spec_matches lower m_name q (get_team_members (state a))) \<longrightarrow>
          map_of (find_team_member_by_name lower a q) ''matches'' =
            Some (VMemberMatches (spec_matches lower m_name q (get_team_members (state a)))))
   \<and> (map p_name (get_projects (state b)) = [''Website Redesign'', ''Website Launch'', ''Mobile App'']
        \<and> lower ''web'' = ''web'' \<and> lower ''mobile'' = ''mobile'' \<and> lower ''zzz'' = ''zzz''
        \<and> lower ''Website Redesign'' = ''website redesign''
        \<and> lower ''Website Launch'' = ''website launch''
        \<and> lower ''Mobile App'' = ''mobile app''
        \<longrightarrow> (\<exists>p1 p2 p3. get_projects (state b) = [p1, p2, p3]
     \<and> map_of (find_project_by_name lower b ''web'') ''status'' = Some (VStr ''multiple_matches'')
     \<and> map_of (find_project_by_name lower b ''web'') ''matches'' = Some (VProjectMatches [(1, p1), (2, p2)])
     \<and> map_of (find_project_by_name lower b ''mobile'') ''status'' = Some (VStr ''found'')
     \<and> map_of (find_project_by_name lower b ''mobile'') ''match'' = Some (VProjectMatch (3, p3))
     \<and> map_of (find_project_by_name lower b ''zzz'') ''status'' = Some (VStr ''not_found'')))"
proof (intro conjI allI impI)
  show "map_of (find_project_by_name lower a q) ''status'' =
     Some (VStr (case spec_matches lower p_name q (get_projects (state a)) of
                   [] \<Rightarrow> ''not_found'' | [m] \<Rightarrow> ''found'' | _ \<Rightarrow> ''multiple_matches''))"
    by (rule find_project_status)
  show "map_of (find_team_member_by_name lower a q) ''status'' =
     Some (VStr (case spec_matches lower m_name q (get_team_members (state a)) of
                   [] \<Rightarrow> ''not_found'' | [m] \<Rightarrow> ''found'' | _ \<Rightarrow> ''multiple_matches''))"
    by (rule find_member_status)
next
  fix m assume "spec_matches lower p_name q (get_projects (state a)) = [m]"
  then show "map_of (find_project_by_name lower a q) ''match'' = Some (VProjectMatch m)"
    by (rule find_project_match)
next
  assume "1 < length (spec_matches lower p_name q (get_projects (state a)))"
  then show "map_of (find_project_by_name lower a q) ''matches'' =
            Some (VProjectMatches (spec_matches lower p_name q (get_projects (state a))))"
    by (rule find_project_matches)
next
  fix m assume "spec_matches lower m_name q (get_team_members (state a)) = [m]"
  then show "map_of (find_team_member_by_name lower a q) ''match'' = Some (VMemberMatch m)"
    by (rule find_member_match)
next
  assume "1 < length (spec_matches lower m_name q (get_team_members (state a)))"
  then show "map_of (find_team_member_by_name lower a q) ''matches'' =
            Some (VMemberMatches (spec_matches lower m_name q (get_team_members (state a))))"
    by (rule find_member_matches)
next
  assume h: "map p_name (get_projects (state b)) = [''Website Redesign'', ''Website Launch'', ''Mobile App'']
        \<and> lower ''web'' = ''web'' \<and> lower ''mobile'' = ''mobile'' \<and> lower ''zzz'' = ''zzz''
        \<and> lower ''Website Redesign'' = ''website redesign''
        \<and> lower ''Website Launch'' = ''website launch''
        \<and> lower ''Mobile App'' = ''mobile app''"
  show "\<exists>p1 p2 p3. get_projects (state b) = [p1, p2, p3]
     \<and> map_of (find_project_by_name lower b ''web'') ''status'' = Some (VStr ''multiple_matches'')
     \<and> map_of (find_project_by_name lower b ''web'') ''matches'' = Some (VProjectMatches [(1, p1), (2, p2)])
     \<and> map_of (find_project_by_name lower b ''mobile'') ''status'' = Some (VStr ''found'')
     \<and> map_of (find_project_by_name lower b ''mobile'') ''match'' = Some (VProjectMatch (3, p3))
     \<and> map_of (find_project_by_name lower b ''zzz'') ''status'' = Some (VStr ''not_found'')"
    by (rule website_example) (simp_all only: h)
qed

theorem find_by_name_tristate_witness:
  "map_of (find_project_by_name ascii_lower website_agent ''web'') ''status'' = Some (VStr ''multiple_matches'')
   \<and> map_of (find_project_by_name ascii_lower website_agent ''web'') ''matches'' =
       Some (VProjectMatches [(1, example_project ''Website Redesign'' []),
                              (2, example_project ''Website Launch'' [])])
   \<and> map_of (find_project_by_name ascii_lower website_agent ''mobile'') ''status'' = Some (VStr ''found'')
   \<and> map_of (find_project_by_name ascii_lower website_agent ''mobile'') ''match'' =
       Some (VProjectMatch (3, example_project ''Mobile App'' []))
   \<and> map_of (find_project_by_name ascii_lower website_agent ''zzz'') ''status'' = Some (VStr ''not_found'')
   \<and> map_of (find_team_member_by_name ascii_lower website_agent ''PAM'') ''match'' =
       Some (VMemberMatch (2, example_member ''Pam Beesly'' ''Design''))
   \<and> map_of (find_team_member_by_name ascii_lower website_agent ''a'') ''matches'' =
       Some (VMemberMatches [(1, example_member ''Jim Halpert'' ''Sales''),
                             (2, example_member ''Pam Beesly'' ''Design'')])"
proof -
  have names: "map p_name (get_projects (state website_agent)) =
      [''Website Redesign'', ''Website Launch'', ''Mobile App'']"
    by (simp add: website_agent_projects example_project_def)
  have web: "spec_matches ascii_lower p_name ''web'' (get_projects (state website_agent)) =
      [(1, example_project ''Website Redesign'' []), (2, example_project ''Website Launch'' [])]"
    by (simp add: website_agent_projects spec_matches_three example_project_def ascii_lower_def
        lower_char_def)
  have mobile: "spec_matches ascii_lower p_name ''mobile'' (get_projects (state website_agent)) =
      [(3, example_project ''Mobile App'' [])]"
    by (simp add: website_agent_projects spec_matches_three example_project_def ascii_lower_def
        lower_char_def)
  have pam: "spec_matches ascii_lower m_name ''PAM'' (get_team_members (state website_agent)) =
      [(2, example_member ''Pam Beesly'' ''Design'')]"
    by (simp add: website_agent_members spec_matches_def example_member_def ascii_lower_def
        lower_char_def upt_rec[of 0] upt_rec[of 1])
  have both: "spec_matches ascii_lower m_name ''a'' (get_team_members (state website_agent)) =
      [(1, example_member ''Jim Halpert'' ''Sales''), (2, example_member ''Pam Beesly'' ''Design'')]"
    by (simp add: website_agent_members spec_matches_def example_member_def ascii_lower_def
        lower_char_def upt_rec[of 0] upt_rec[of 1])
  have g1: "map_of (find_project_by_name ascii_lower website_agent ''web'') ''status'' = Some (VStr ''multiple_matches'')
   \<and> map_of (find_project_by_name ascii_lower website_agent ''web'') ''matches'' =
       Some (VProjectMatches [(1, example_project ''Website Redesign'' []),
                              (2, example_project ''Website Launch'' [])])"
    using find_by_name_tristate[where lower = ascii_lower and a = website_agent and q = "''web''"] by (simp add: web)
  have g2: "map_of (find_project_by_name ascii_lower website_agent ''mobile'') ''status'' = Some (VStr ''found'')
   \<and> map_of (find_project_by_name ascii_lower website_agent ''mobile'') ''match'' =
       Some (VProjectMatch (3, example_project ''Mobile App'' []))"
    using find_by_name_tristate[where lower = ascii_lower and a = website_agent and q = "''mobile''"] by (simp add: mobile)
  have h: "map p_name (get_projects (state website_agent)) =
        [''Website Redesign'', ''Website Launch'', ''Mobile App'']
      \<and> ascii_lower ''web'' = ''web'' \<and> ascii_lower ''mobile'' = ''mobile''
      \<and> ascii_lower ''zzz'' = ''zzz''
      \<and> ascii_lower ''Website Redesign'' = ''website redesign''
      \<and> ascii_lower ''Website Launch'' = ''website launch''
      \<and> ascii_lower ''Mobile App'' = ''mobile app''"
    by (simp add: names ascii_lower_def lower_char_def)
  have g3: "map_of (find_project_by_name ascii_lower website_agent ''zzz'') ''status'' = Some (VStr ''not_found'')"
    using find_by_name_tristate[where lower = ascii_lower and b = website_agent,
        THEN conjunct2, THEN conjunct2, THEN conjunct2, THEN conjunct2, THEN conjunct2,
        THEN conjunct2, THEN mp, OF h]
    by auto
  have g4: "map_of (find_team_member_by_name ascii_lower website_agent ''PAM'') ''match'' =
       Some (VMemberMatch (2, example_member ''Pam Beesly'' ''Design''))"
    using find_by_name_tristate[where lower = ascii_lower and a = website_agent and q = "''PAM''"] by (simp add: pam)
  have g5: "map_of (find_team_member_by_name ascii_lower website_agent ''a'') ''matches'' =
       Some (VMemberMatches [(1, example_member ''Jim Halpert'' ''Sales''),
                             (2, example_member ''Pam Beesly'' ''Design'')])"
    using find_by_name_tristate[where lower = ascii_lower and a = website_agent and q = "''a''"] by (simp add: both)
  show ?thesis by (simp only: g1 g2 g3 g4 g5 simp_thms)
qed

text \<open>
  C9. The empty query matches every item, since the empty string lower-cases to itself
  and is contained in every string. On a non-empty collection the result is never
  \<open>not_found\<close>: one element gives \<open>found\<close> at index 1, two or more give
  \<open>multiple_matches\<close> listing every element with its 1-based index.
\<close>

theorem empty_query_matches_everything:
  assumes empty: "lower [] = []"
  shows "(get_projects (state a) = [p] \<longrightarrow>
      map_of (find_project_by_name lower a []) ''status'' = Some (VStr ''found'')
      \<and> map_of (find_project_by_name lower a []) ''match'' = Some (VProjectMatch (1, p)))
   \<and> (2 \<le> length (get_projects (state a)) \<longrightarrow>
      map_of (find_project_by_name lower a []) ''status'' = Some (VStr ''multiple_matches'')
      \<and> map_of (find_project_by_name lower a []) ''matches'' =
          Some (VProjectMatches (map (\<lambda>i. (int i + 1, get_projects (state a) ! i))
                                    [0..<length (get_projects (state a))])))
   \<and> (get_projects (state a) \<noteq> [] \<longrightarrow>
      map_of (find_project_by_name lower a []) ''status'' \<noteq> Some (VStr ''not_found''))
   \<and> (get_team_members (state a) = [m] \<longrightarrow>
      map_of (find_team_member_by_name lower a []) ''status'' = Some (VStr ''found'')
      \<and> map_of (find_team_member_by_name lower a []) ''match'' = Some (VMemberMatch (1, m)))
   \<and> (2 \<le> length (get_team_members (state a)) \<longrightarrow>
      map_of (find_team_member_by_name lower a []) ''status'' = Some (VStr ''multiple_matches'')
      \<and> map_of (find_team_member_by_name lower a []) ''matches'' =
          Some (VMemberMatches (map (\<lambda>i. (int i + 1, get_team_members (state a) ! i))
                                   [0..<length (get_team_members (state a))])))
   \<and> (get_team_members (state a) \<noteq> [] \<longrightarrow>
      map_of (find_team_member_by_name lower a []) ''status'' \<noteq> Some (VStr ''not_found''))"
proof -
  have P: "map_of (find_project_by_name lower a []) ''status'' =
      Some (VStr (if get_projects (state a) = [] then ''not_found''
                  else if length (get_projects (state a)) = 1 then ''found''
                  else ''multiple_matches''))"
    by (simp add: find_project_by_name_def find_loop_spec spec_matches_empty_query[where lower = lower, OF empty] Let_def)
  have M: "map_of (find_team_member_by_name lower a []) ''status'' =
      Some (VStr (if get_team_members (state a) = [] then ''not_found''
                  else if length (get_team_members (state a)) = 1 then ''found''
                  else ''multiple_matches''))"
    by (simp add: find_team_member_by_name_def find_loop_spec spec_matches_empty_query[where lower = lower, OF empty] Let_def)
  have P1: "get_projects (state a) = [p] \<Longrightarrow>
      map_of (find_project_by_name lower a []) ''match'' = Some (VProjectMatch (1, p))"
    by (simp add: find_project_by_name_def find_loop_spec spec_matches_empty_query[where lower = lower, OF empty] Let_def)
  have M1: "get_team_members (state a) = [m] \<Longrightarrow>
      map_of (find_team_member_by_name lower a []) ''match'' = Some (VMemberMatch (1, m))"
    by (simp add: find_team_member_by_name_def find_loop_spec spec_matches_empty_query[where lower = lower, OF empty] Let_def)
  have P2: "2 \<le> length (get_projects (state a)) \<Longrightarrow>
      map_of (find_project_by_name lower a []) ''matches'' =
          Some (VProjectMatches (map (\<lambda>i. (int i + 1, get_projects (state a) ! i))
                                    [0..<length (get_projects (state a))]))"
    by (auto simp: find_project_by_name_def find_loop_spec spec_matches_empty_query[where lower = lower, OF empty] Let_def)
  have M2: "2 \<le> length (get_team_members (state a)) \<Longrightarrow>
      map_of (find_team_member_by_name lower a []) ''matches'' =
          Some (VMemberMatches (map (\<lambda>i. (int i + 1, get_team_members (state a) ! i))
                                   [0..<length (get_team_members (state a))]))"
    by (auto simp: find_team_member_by_name_def find_loop_spec spec_matches_empty_query[where lower = lower, OF empty] Let_def)
  show ?thesis
    using P1 M1 P2 M2 by (auto simp: P M)
qed

theorem empty_query_matches_everything_witness:
  "map_of (find_project_by_name ascii_lower website_agent []) ''status'' = Some (VStr ''multiple_matches'')
   \<and> map_of (find_project_by_name ascii_lower website_agent []) ''matches'' =
       Some (VProjectMatches [(1, example_project ''Website Redesign'' []),
                              (2, example_project ''Website Launch'' []),
                              (3, example_project ''Mobile App'' [])])
   \<and> map_of (find_project_by_name ascii_lower alpha_agent []) ''status'' = Some (VStr ''found'')
   \<and> map_of (find_project_by_name ascii_lower alpha_agent []) ''match'' =
       Some (VProjectMatch (1, example_project ''Alpha'' [example_task ''Write spec'' ''pending'']))
   \<and> map_of (find_team_member_by_name ascii_lower website_agent []) ''matches'' =
       Some (VMemberMatches [(1, example_member ''Jim Halpert'' ''Sales''),
                             (2, example_member ''Pam Beesly'' ''Design'')])
   \<and> map_of (find_team_member_by_name ascii_lower (example_agent [] [example_member ''Jim Halpert'' ''Sales'']) [])
         ''match'' = Some (VMemberMatch (1, example_member ''Jim Halpert'' ''Sales''))"
proof -
  have one: "get_team_members (state (example_agent [] [example_member ''Jim Halpert'' ''Sales'']))
      = [example_member ''Jim Halpert'' ''Sales'']"
    by (simp add: example_agent_def get_team_members_def)
  have g1: "map_of (find_project_by_name ascii_lower website_agent []) ''status'' = Some (VStr ''multiple_matches'')
   \<and> map_of (find_project_by_name ascii_lower website_agent []) ''matches'' =
       Some (VProjectMatches [(1, example_project ''Website Redesign'' []),
                              (2, example_project ''Website Launch'' []),
                              (3, example_project ''Mobile App'' [])])
   \<and> map_of (find_team_member_by_name ascii_lower website_agent []) ''matches'' =
       Some (VMemberMatches [(1, example_member ''Jim Halpert'' ''Sales''),
                             (2, example_member ''Pam Beesly'' ''Design'')])"
    using empty_query_matches_everything[where lower = ascii_lower and a = website_agent]
    by (simp add: website_agent_projects website_agent_members ascii_lower_def
        upt_rec[of 0] upt_rec[of 1] upt_rec[of 2])
  have g2: "map_of (find_project_by_name ascii_lower alpha_agent []) ''status'' = Some (VStr ''found'')
   \<and> map_of (find_project_by_name ascii_lower alpha_agent []) ''match'' =
       Some (VProjectMatch (1, example_project ''Alpha'' [example_task ''Write spec'' ''pending'']))"
    using empty_query_matches_everything[where lower = ascii_lower and a = alpha_agent
        and p = "example_project ''Alpha'' [example_task ''Write spec'' ''pending'']"]
    by (simp add: alpha_agent_projects ascii_lower_def)
  have g3: "map_of (find_team_member_by_name ascii_lower (example_agent [] [example_member ''Jim Halpert'' ''Sales'']) [])
         ''match'' = Some (VMemberMatch (1, example_member ''Jim Halpert'' ''Sales''))"
    using empty_query_matches_everything[where lower = ascii_lower
        and a = "example_agent [] [example_member ''Jim Halpert'' ''Sales'']"
        and m = "example_member ''Jim Halpert'' ''Sales''"] one
    by (simp add: ascii_lower_def)
  show ?thesis by (simp only: g1 g2 g3 simp_thms)
qed

section \<open>Index-addressed operations\<close>

lemma update_state_projects:
  "get_projects (state (update_state a (Projects ps))) = ps"
  "team_members (state (update_state a (Projects ps))) = team_members (state a)"
  "user_name (state (update_state a (Projects ps))) = user_name (state a)"
  "session_id (update_state a (Projects ps)) = session_id a"
  "persisted (update_state a (Projects ps)) =
     persisted a @ [(session_id a, state (update_state a (Projects ps)))]"
  by (simp_all add: update_state_def get_projects_def Let_def)

lemma update_state_team_members:
  "get_team_members (state (update_state a (TeamMembers ms))) = ms"
  "projects (state (update_state a (TeamMembers ms))) = projects (state a)"
  "user_name (state (update_state a (TeamMembers ms))) = user_name (state a)"
  "session_id (update_state a (TeamMembers ms)) = session_id a"
  "persisted (update_state a (TeamMembers ms)) =
     persisted a @ [(session_id a, state (update_state a (TeamMembers ms)))]"
  by (simp_all add: update_state_def get_team_members_def Let_def)

lemma add_task_out_of_range:
  assumes "i < 1 \<or> int (length (get_projects (state a))) < i"
  shows "add_task today a i n at d dd pr =
     Inr (a, [(''action'', VStr ''add_task''), (''status'', VStr ''error''),
              (''message'', VStr (''Invalid project index: '' @ str_int i
                 @ ''. Please choose between 1 and ''
                 @ str_int (int (length (get_projects (state a)))) @ ''.''))])"
  using assms by (auto simp: add_task_def Let_def)

lemma add_task_in_range:
  assumes "1 \<le> i" "i \<le> int (length (get_projects (state a)))"
  shows "add_task today a i n at d dd pr =
     (case p_tasks (get_projects (state a) ! nat (i - 1)) of
        None \<Rightarrow> Inl KeyError
      | Some ts \<Rightarrow>
          Inr (update_state a (Projects ((get_projects (state a))[nat (i - 1) :=
                 (get_projects (state a) ! nat (i - 1))\<lparr>p_tasks := Some (ts @
                   [\<lparr>t_name = n,
                     t_description = (case d of None \<Rightarrow> ''No description provided'' | Some v \<Rightarrow> v),
                     t_assigned_to = (case at of None \<Rightarrow> ''Unassigned'' | Some v \<Rightarrow> v),
                     t_due_date = (case dd of None \<Rightarrow> ''2025-12-31'' | Some v \<Rightarrow> v),
                     t_priority = (case pr of None \<Rightarrow> ''medium'' | Some v \<Rightarrow> v),
                     t_status = Some ''pending'', t_created_at = today\<rparr>])\<rparr>])),
               [(''action'', VStr ''add_task''), (''task'', VStr n),
                (''project'', VStr (p_name (get_projects (state a) ! nat (i - 1)))),
                (''message'', VStr (''Added task '' @ quoted n @ '' to project ''
                   @ quoted (p_name (get_projects (state a) ! nat (i - 1)))))]))"
  using assms by (auto simp: add_task_def Let_def split: option.splits)

lemma update_team_member_out_of_range:
  assumes "i < 1 \<or> int (length (get_team_members (state a))) < i"
  shows "update_team_member a i n r e =
     (a, [(''action'', VStr ''update_team_member''), (''status'', VStr ''error''),
          (''message'', VStr (''Invalid team member index: '' @ str_int i
             @ ''. Please choose between 1 and ''
             @ str_int (int (length (get_team_members (state a)))) @ ''.''))])"
  using assms by (auto simp: update_team_member_def Let_def)

text \<open>The partial update of one member, as the three assignments of the source make it.\<close>

lemma update_team_member_in_range:
  assumes "1 \<le> i" "i \<le> int (length (get_team_members (state a)))"
  shows "update_team_member a i n r e =
     (update_state a (TeamMembers ((get_team_members (state a))[nat (i - 1) :=
        (get_team_members (state a) ! nat (i - 1))
          \<lparr>m_name := (case n of None \<Rightarrow> m_name (get_team_members (state a) ! nat (i - 1)) | Some v \<Rightarrow> v),
           m_role := (case r of None \<Rightarrow> m_role (get_team_members (state a) ! nat (i - 1)) | Some v \<Rightarrow> v),
           m_email := (case e of None \<Rightarrow> m_email (get_team_members (state a) ! nat (i - 1))
                        | Some v \<Rightarrow> Some v)\<rparr>])),
      [(''action'', VStr ''update_team_member''),
       (''member'', VStr (case n of None \<Rightarrow> m_name (get_team_members (state a) ! nat (i - 1)) | Some v \<Rightarrow> v)),
       (''message'', VStr (''Updated team member: ''
          @ (case n of None \<Rightarrow> m_name (get_team_members (state a) ! nat (i - 1)) | Some v \<Rightarrow> v)))])"
  using assms by (cases n; cases r; cases e) (simp_all add: update_team_member_def Let_def)

lemma delete_team_member_out_of_range:
  assumes "i < 1 \<or> int (length (get_team_members (state a))) < i"
  shows "delete_team_member a i =
     (a, [(''action'', VStr ''delete_team_member''), (''status'', VStr ''error''),
          (''message'', VStr (''Invalid team member index: '' @ str_int i
             @ ''. Please choose between 1 and ''
             @ str_int (int (length (get_team_members (state a)))) @ ''.''))])"
  using assms by (auto simp: delete_team_member_def Let_def)

lemma delete_team_member_in_range:
  assumes "1 \<le> i" "i \<le> int (length (get_team_members (state a)))"
  shows "delete_team_member a i =
     (update_state a (TeamMembers (pop_at (nat (i - 1)) (get_team_members (state a)))),
      [(''action'', VStr ''delete_team_member''),
       (''member'', VStr (m_name (get_team_members (state a) ! nat (i - 1)))),
       (''message'', VStr (''Deleted team member: ''
          @ m_name (get_team_members (state a) ! nat (i - 1))))])"
  using assms by (auto simp: delete_team_member_def Let_def)

lemma delete_project_out_of_range:
  assumes "i < 1 \<or> int (length (get_projects (state a))) < i"
  shows "delete_project a i =
     (a, [(''action'', VStr ''delete_project''), (''status'', VStr ''error''),
          (''message'', VStr (''Invalid project index: '' @ str_int i
             @ ''. Please choose between 1 and ''
             @ str_int (int (length (get_projects (state a)))) @ ''.''))])"
  using assms by (auto simp: delete_project_def Let_def)

lemma delete_project_in_range:
  assumes "1 \<le> i" "i \<le> int (length (get_projects (state a)))"
  shows "delete_project a i =
     (update_state a (Projects (pop_at (nat (i - 1)) (get_projects (state a)))),
      [(''action'', VStr ''delete_project''),
       (''project'', VStr (p_name (get_projects (state a) ! nat (i - 1)))),
       (''message'', VStr (''Deleted project: ''
          @ p_name (get_projects (state a) ! nat (i - 1))))])"
  using assms by (auto simp: delete_project_def Let_def)

lemma pop_at_length: "k < length xs \<Longrightarrow> length (pop_at k xs) = length xs - 1"
  by (simp add: pop_at_def)

lemma pop_at_before: "j < k \<Longrightarrow> k < length xs \<Longrightarrow> pop_at k xs ! j = xs ! j"
  by (simp add: pop_at_def nth_append)

lemma pop_at_after: "k \<le> j \<Longrightarrow> Suc j < length xs \<Longrightarrow> pop_at k xs ! j = xs ! Suc j"
  by (simp add: pop_at_def nth_append min_def)

text \<open>
  C2. Each index-taking operation (\<open>add_task\<close>, \<open>update_team_member\<close>,
  \<open>delete_team_member\<close>, \<open>delete_project\<close>) with an index \<open>i\<close> below 1 or above the
  count of its collection returns the index-out-of-range error result and the agent as it
  was: the state is unchanged and nothing is written to the session store. With
  \<open>1 \<le> i \<le> count\<close> it works on element \<open>i - 1\<close>: \<open>add_task\<close> appends the new task to the
  tasks of that project (and raises \<open>KeyError\<close>, before any write, when that project has no
  \<open>tasks\<close> key), \<open>update_team_member\<close> rewrites that member, and the two deletions remove
  that element.
\<close>

theorem index_operations_bounds:
  "(i < 1 \<or> int (length (get_projects (state a))) < i \<longrightarrow>
      add_task today a i n at d dd pr =
        Inr (a, [(''action'', VStr ''add_task''), (''status'', VStr ''error''),
                 (''message'', VStr (''Invalid project index: '' @ str_int i
                    @ ''. Please choose between 1 and ''
                    @ str_int (int (length (get_projects (state a)))) @ ''.''))])
      \<and> delete_project a i =
        (a, [(''action'', VStr ''delete_project''), (''status'', VStr ''error''),
             (''message'', VStr (''Invalid project index: '' @ str_int i
                @ ''. Please choose between 1 and ''
                @ str_int (int (length (get_projects (state a)))) @ ''.''))]))
   \<and> (i < 1 \<or> int (length (get_team_members (state a))) < i \<longrightarrow>
      update_team_member a i mn mr me =
        (a, [(''action'', VStr ''update_team_member''), (''status'', VStr ''error''),
             (''message'', VStr (''Invalid team member index: '' @ str_int i
                @ ''. Please choose between 1 and ''
                @ str_int (int (length (get_team_members (state a)))) @ ''.''))])
      \<and> delete_team_member a i =
        (a, [(''action'', VStr ''delete_team_member''), (''status'', VStr ''error''),
             (''message'', VStr (''Invalid team member index: '' @ str_int i
                @ ''. Please choose between 1 and ''
                @ str_int (int (length (get_team_members (state a)))) @ ''.''))]))
   \<and> (1 \<le> i \<and> i \<le> int (length (get_projects (state a))) \<longrightarrow>
      (case p_tasks (get_projects (state a) ! nat (i - 1)) of
         None \<Rightarrow> add_task today a i n at d dd pr = Inl KeyError
       | Some ts \<Rightarrow>
           (\<exists>a' r. add_task today a i n at d dd pr = Inr (a', r)
              \<and> get_projects (state a') = (get_projects (state a))[nat (i - 1) :=
                   (get_projects (state a) ! nat (i - 1))\<lparr>p_tasks := Some (ts @
                     [\<lparr>t_name = n,
                       t_description = (case d of None \<Rightarrow> ''No description provided'' | Some v \<Rightarrow> v),
                       t_assigned_to = (case at of None \<Rightarrow> ''Unassigned'' | Some v \<Rightarrow> v),
                       t_due_date = (case dd of None \<Rightarrow> ''2025-12-31'' | Some v \<Rightarrow> v),
                       t_priority = (case pr of None \<Rightarrow> ''medium'' | Some v \<Rightarrow> v),
                       t_status = Some ''pending'', t_created_at = today\<rparr>])\<rparr>]
              \<and> persisted a' = persisted a @ [(session_id a, state a')]
              \<and> map_of r ''project'' = Some (VStr (p_name (get_projects (state a) ! nat (i - 1))))
              \<and> map_of r ''status'' = None))
      \<and> get_projects (state (fst (delete_project a i))) =
           take (nat (i - 1)) (get_projects (state a)) @ drop (nat i) (get_projects (state a))
      \<and> persisted (fst (delete_project a i)) =
           persisted a @ [(session_id a, state (fst (delete_project a i)))]
      \<and> map_of (snd (delete_project a i)) ''project'' =
           Some (VStr (p_name (get_projects (state a) ! nat (i - 1)))))
   \<and> (1 \<le> i \<and> i \<le> int (length (get_team_members (state a))) \<longrightarrow>
      get_team_members (state (fst (update_team_member a i mn mr me))) =
        (get_team_members (state a))[nat (i - 1) :=
          (get_team_members (state a) ! nat (i - 1))
            \<lparr>m_name := (case mn of None \<Rightarrow> m_name (get_team_members (state a) ! nat (i - 1)) | Some v \<Rightarrow> v),
             m_role := (case mr of None \<Rightarrow> m_role (get_team_members (state a) ! nat (i - 1)) | Some v \<Rightarrow> v),
             m_email := (case me of None \<Rightarrow> m_email (get_team_members (state a) ! nat (i - 1))
                          | Some v \<Rightarrow> Some v)\<rparr>]
      \<and> persisted (fst (update_team_member a i mn mr me)) =
           persisted a @ [(session_id a, state (fst (update_team_member a i mn mr me)))]
      \<and> get_team_members (state (fst (delete_team_member a i))) =
           take (nat (i - 1)) (get_team_members (state a)) @ drop (nat i) (get_team_members (state a))
      \<and> persisted (fst (delete_team_member a i)) =
           persisted a @ [(session_id a, state (fst (delete_team_member a i)))]
      \<and> map_of (snd (delete_team_member a i)) ''member'' =
           Some (VStr (m_name (get_team_members (state a) ! nat (i - 1)))))"
proof (intro conjI impI)
  assume "i < 1 \<or> int (length (get_projects (state a))) < i"
  then show "add_task today a i n at d dd pr =
        Inr (a, [(''action'', VStr ''add_task''), (''status'', VStr ''error''),
                 (''message'', VStr (''Invalid project index: '' @ str_int i
                    @ ''. Please choose between 1 and ''
                    @ str_int (int (length (get_projects (state a)))) @ ''.''))])"
    by (rule add_task_out_of_range)
next
  assume "i < 1 \<or> int (length (get_projects (state a))) < i"
  then show "delete_project a i =
        (a, [(''action'', VStr ''delete_project''), (''status'', VStr ''error''),
             (''message'', VStr (''Invalid project index: '' @ str_int i
                @ ''. Please choose between 1 and ''
                @ str_int (int (length (get_projects (state a)))) @ ''.''))])"
    by (rule delete_project_out_of_range)
next
  assume "i < 1 \<or> int (length (get_team_members (state a))) < i"
  then show "update_team_member a i mn mr me =
        (a, [(''action'', VStr ''update_team_member''), (''status'', VStr ''error''),
             (''message'', VStr (''Invalid team member index: '' @ str_int i
                @ ''. Please choose between 1 and ''
                @ str_int (int (length (get_team_members (state a)))) @ ''.''))])"
    by (rule update_team_member_out_of_range)
next
  assume "i < 1 \<or> int (length (get_team_members (state a))) < i"
  then show "delete_team_member a i =
        (a, [(''action'', VStr ''delete_team_member''), (''status'', VStr ''error''),
             (''message'', VStr (''Invalid team member index: '' @ str_int i
                @ ''. Please choose between 1 and ''
                @ str_int (int (length (get_team_members (state a)))) @ ''.''))])"
    by (rule delete_team_member_out_of_range)
next
  assume r: "1 \<le> i \<and> i \<le> int (length (get_projects (state a)))"
  show "case p_tasks (get_projects (state a) ! nat (i - 1)) of
         None \<Rightarrow> add_task today a i n at d dd pr = Inl KeyError
       | Some ts \<Rightarrow>
           (\<exists>a' r. add_task today a i n at d dd pr = Inr (a', r)
              \<and> get_projects (state a') = (get_projects (state a))[nat (i - 1) :=
                   (get_projects (state a) ! nat (i - 1))\<lparr>p_tasks := Some (ts @
                     [\<lparr>t_name = n,
                       t_description = (case d of None \<Rightarrow> ''No description provided'' | Some v \<Rightarrow> v),
                       t_assigned_to = (case at of None \<Rightarrow> ''Unassigned'' | Some v \<Rightarrow> v),
                       t_due_date = (case dd of None \<Rightarrow> ''2025-12-31'' | Some v \<Rightarrow> v),
                       t_priority = (case pr of None \<Rightarrow> ''medium'' | Some v \<Rightarrow> v),
                       t_status = Some ''pending'', t_created_at = today\<rparr>])\<rparr>]
              \<and> persisted a' = persisted a @ [(session_id a, state a')]
              \<and> map_of r ''project'' = Some (VStr (p_name (get_projects (state a) ! nat (i - 1))))
              \<and> map_of r ''status'' = None)"
    using r by (simp add: add_task_in_range update_state_projects split: option.splits)
next
  assume r: "1 \<le> i \<and> i \<le> int (length (get_projects (state a)))"
  then have k: "Suc (nat (i - 1)) = nat i" by arith
  from r show "get_projects (state (fst (delete_project a i))) =
           take (nat (i - 1)) (get_projects (state a)) @ drop (nat i) (get_projects (state a))"
    by (simp add: delete_project_in_range update_state_projects pop_at_def k)
next
  assume r: "1 \<le> i \<and> i \<le> int (length (get_projects (state a)))"
  then show "persisted (fst (delete_project a i)) =
           persisted a @ [(session_id a, state (fst (delete_project a i)))]"
    by (simp add: delete_project_in_range update_state_projects)
next
  assume r: "1 \<le> i \<and> i \<le> int (length (get_projects (state a)))"
  then show "map_of (snd (delete_project a i)) ''project'' =
           Some (VStr (p_name (get_projects (state a) ! nat (i - 1))))"
    by (simp add: delete_project_in_range)
next
  assume r: "1 \<le> i \<and> i \<le> int (length (get_team_members (state a)))"
  then show "get_team_members (state (fst (update_team_member a i mn mr me))) =
        (get_team_members (state a))[nat (i - 1) :=
          (get_team_members (state a) ! nat (i - 1))
            \<lparr>m_name := (case mn of None \<Rightarrow> m_name (get_team_members (state a) ! nat (i - 1)) | Some v \<Rightarrow> v),
             m_role := (case mr of None \<Rightarrow> m_role (get_team_members (state a) ! nat (i - 1)) | Some v \<Rightarrow> v),
             m_email := (case me of None \<Rightarrow> m_email (get_team_members (state a) ! nat (i - 1))
                          | Some v \<Rightarrow> Some v)\<rparr>]"
    by (simp add: update_team_member_in_range update_state_team_members)
next
  assume r: "1 \<le> i \<and> i \<le> int (length (get_team_members (state a)))"
  then show "persisted (fst (update_team_member a i mn mr me)) =
           persisted a @ [(session_id a, state (fst (update_team_member a i mn mr me)))]"
    by (simp add: update_team_member_in_range update_state_team_members)
next
  assume r: "1 \<le> i \<and> i \<le> int (length (get_team_members (state a)))"
  then have k: "Suc (nat (i - 1)) = nat i" by arith
  from r show "get_team_members (state (fst (delete_team_member a i))) =
           take (nat (i - 1)) (get_team_members (state a)) @ drop (nat i) (get_team_members (state a))"
    by (simp add: delete_team_member_in_range update_state_team_members pop_at_def k)
next
  assume r: "1 \<le> i \<and> i \<le> int (length (get_team_members (state a)))"
  then show "persisted (fst (delete_team_member a i)) =
           persisted a @ [(session_id a, state (fst (delete_team_member a i)))]"
    by (simp add: delete_team_member_in_range update_state_team_members)
next
  assume r: "1 \<le> i \<and> i \<le> int (length (get_team_members (state a)))"
  then show "map_of (snd (delete_team_member a i)) ''member'' =
           Some (VStr (m_name (get_team_members (state a) ! nat (i - 1))))"
    by (simp add: delete_team_member_in_range)
qed

theorem index_operations_bounds_witness:
  "delete_team_member website_agent 3 =
     (website_agent, [(''action'', VStr ''delete_team_member''), (''status'', VStr ''error''),
        (''message'', VStr ''Invalid team member index: 3. Please choose between 1 and 2.'')])
   \<and> get_team_members (state (fst (delete_team_member website_agent 1))) =
       [example_member ''Pam Beesly'' ''Design'']
   \<and> get_projects (state (fst (delete_project website_agent 2))) =
       [example_project ''Website Redesign'' [], example_project ''Mobile App'' []]
   \<and> fst (delete_project website_agent 0) = website_agent
   \<and> (\<exists>a' r. add_task ''2025-01-15'' website_agent 3 ''Write spec'' None None None None = Inr (a', r)
        \<and> map p_name (get_projects (state a')) = [''Website Redesign'', ''Website Launch'', ''Mobile App'']
        \<and> map (map t_name \<circ> get_tasks) (get_projects (state a')) = [[], [], [''Write spec'']]
        \<and> length (persisted a') = 1)"
proof -
  have len: "length (get_team_members (state website_agent)) = 2"
    "length (get_projects (state website_agent)) = 3"
    by (simp_all add: website_agent_members website_agent_projects)
  have m3: "delete_team_member website_agent 3 =
     (website_agent, [(''action'', VStr ''delete_team_member''), (''status'', VStr ''error''),
        (''message'', VStr ''Invalid team member index: 3. Please choose between 1 and 2.'')])"
    using index_operations_bounds[of 3 website_agent] by (simp add: len str_int_def)
  have m1: "get_team_members (state (fst (delete_team_member website_agent 1))) =
       [example_member ''Pam Beesly'' ''Design'']"
    using index_operations_bounds[of 1 website_agent] by (simp add: website_agent_members)
  have p2: "get_projects (state (fst (delete_project website_agent 2))) =
       [example_project ''Website Redesign'' [], example_project ''Mobile App'' []]"
    using index_operations_bounds[of 2 website_agent] by (simp add: website_agent_projects)
  have p0: "fst (delete_project website_agent 0) = website_agent"
    using index_operations_bounds[of 0 website_agent] by simp
  have pt: "p_tasks (get_projects (state website_agent) ! nat (3 - 1)) = Some []"
    by (simp add: website_agent_projects example_project_def)
  have rng: "1 \<le> (3::int) \<and> 3 \<le> int (length (get_projects (state website_agent)))"
    by (simp add: len)
  note in_range = index_operations_bounds[where i = 3 and a = website_agent
      and today = "''2025-01-15''" and n = "''Write spec''" and at = None and d = None
      and dd = None and pr = None,
      THEN conjunct2, THEN conjunct2, THEN conjunct1, THEN mp, THEN conjunct1]
  from in_range[OF rng]
  obtain a' r where
    ar: "add_task ''2025-01-15'' website_agent 3 ''Write spec'' None None None None = Inr (a', r)"
    and ps': "get_projects (state a') = (get_projects (state website_agent))[nat (3 - 1) :=
                   (get_projects (state website_agent) ! nat (3 - 1))\<lparr>p_tasks := Some ([] @
                     [\<lparr>t_name = ''Write spec'',
                       t_description = ''No description provided'',
                       t_assigned_to = ''Unassigned'',
                       t_due_date = ''2025-12-31'',
                       t_priority = ''medium'',
                       t_status = Some ''pending'', t_created_at = ''2025-01-15''\<rparr>])\<rparr>]"
    and pe: "persisted a' = persisted website_agent @ [(session_id website_agent, state a')]"
    unfolding pt by auto
  have names: "map p_name (get_projects (state a')) = [''Website Redesign'', ''Website Launch'', ''Mobile App'']"
    and tasks: "map (map t_name \<circ> get_tasks) (get_projects (state a')) = [[], [], [''Write spec'']]"
    by (simp_all add: ps' website_agent_projects example_project_def get_tasks_def)
  have once: "length (persisted a') = 1"
    by (simp add: pe website_agent_def example_agent_def)
  have t3: "\<exists>a' r. add_task ''2025-01-15'' website_agent 3 ''Write spec'' None None None None = Inr (a', r)
        \<and> map p_name (get_projects (state a')) = [''Website Redesign'', ''Website Launch'', ''Mobile App'']
        \<and> map (map t_name \<circ> get_tasks) (get_projects (state a')) = [[], [], [''Write spec'']]
        \<and> length (persisted a') = 1"
    by (rule exI[of _ a'], rule exI[of _ r]) (simp only: ar names tasks once simp_thms)
  show ?thesis by (simp only: m3 m1 p2 p0 t3 simp_thms)
qed

text \<open>
  C8. For a valid index, \<open>update_team_member\<close> overwrites only the fields given, and leaves
  the other fields of that member, every other member and the rest of the state as they
  were; \<open>delete_team_member\<close> removes exactly that member, the members after it move down
  by one and the collection is one shorter.
\<close>

theorem team_member_update_delete_frame:
  "1 \<le> i \<and> i \<le> int (length (get_team_members (state a))) \<longrightarrow>
     (let ms = get_team_members (state a);
          k = nat (i - 1);
          u = fst (update_team_member a i mn mr me);
          us = get_team_members (state u);
          d = fst (delete_team_member a i);
          ds = get_team_members (state d)
      in length us = length ms
       \<and> m_name (us ! k) = (case mn of None \<Rightarrow> m_name (ms ! k) | Some v \<Rightarrow> v)
       \<and> m_role (us ! k) = (case mr of None \<Rightarrow> m_role (ms ! k) | Some v \<Rightarrow> v)
       \<and> m_email (us ! k) = (case me of None \<Rightarrow> m_email (ms ! k) | Some v \<Rightarrow> Some v)
       \<and> m_created_at (us ! k) = m_created_at (ms ! k)
       \<and> (\<forall>j < length ms. j \<noteq> k \<longrightarrow> us ! j = ms ! j)
       \<and> projects (state u) = projects (state a)
       \<and> user_name (state u) = user_name (state a)
       \<and> session_id u = session_id a
       \<and> length ds + 1 = length ms
       \<and> (\<forall>j < k. ds ! j = ms ! j)
       \<and> (\<forall>j. k \<le> j \<and> j < length ds \<longrightarrow> ds ! j = ms ! (j + 1))
       \<and> projects (state d) = projects (state a)
       \<and> user_name (state d) = user_name (state a)
       \<and> session_id d = session_id a)"
proof
  assume r: "1 \<le> i \<and> i \<le> int (length (get_team_members (state a)))"
  then have k: "nat (i - 1) < length (get_team_members (state a))" by arith
  show "let ms = get_team_members (state a);
          k = nat (i - 1);
          u = fst (update_team_member a i mn mr me);
          us = get_team_members (state u);
          d = fst (delete_team_member a i);
          ds = get_team_members (state d)
      in length us = length ms
       \<and> m_name (us ! k) = (case mn of None \<Rightarrow> m_name (ms ! k) | Some v \<Rightarrow> v)
       \<and> m_role (us ! k) = (case mr of None \<Rightarrow> m_role (ms ! k) | Some v \<Rightarrow> v)
       \<and> m_email (us ! k) = (case me of None \<Rightarrow> m_email (ms ! k) | Some v \<Rightarrow> Some v)
       \<and> m_created_at (us ! k) = m_created_at (ms ! k)
       \<and> (\<forall>j < length ms. j \<noteq> k \<longrightarrow> us ! j = ms ! j)
       \<and> projects (state u) = projects (state a)
       \<and> user_name (state u) = user_name (state a)
       \<and> session_id u = session_id a
       \<and> length ds + 1 = length ms
       \<and> (\<forall>j < k. ds ! j = ms ! j)
       \<and> (\<forall>j. k \<le> j \<and> j < length ds \<longrightarrow> ds ! j = ms ! (j + 1))
       \<and> projects (state d) = projects (state a)
       \<and> user_name (state d) = user_name (state a)
       \<and> session_id d = session_id a"
    unfolding Let_def
    using r k
    by (auto simp add: update_team_member_in_range delete_team_member_in_range
        update_state_team_members pop_at_length pop_at_before pop_at_after)
qed

theorem team_member_update_delete_frame_witness:
  "get_team_members (state (fst (update_team_member website_agent 2 None (Some ''Reception'') None))) =
     [example_member ''Jim Halpert'' ''Sales'', example_member ''Pam Beesly'' ''Reception'']
   \<and> get_team_members (state (fst (delete_team_member website_agent 1))) =
     [example_member ''Pam Beesly'' ''Design'']
   \<and> projects (state (fst (delete_team_member website_agent 1))) = projects (state website_agent)"
proof -
  have r: "1 \<le> (2::int) \<and> 2 \<le> int (length (get_team_members (state website_agent)))"
     "1 \<le> (1::int) \<and> 1 \<le> int (length (get_team_members (state website_agent)))"
    by (simp_all add: website_agent_members)
  have u: "get_team_members (state (fst (update_team_member website_agent 2 None (Some ''Reception'') None))) =
     [example_member ''Jim Halpert'' ''Sales'', example_member ''Pam Beesly'' ''Reception'']"
    using team_member_update_delete_frame[of 2 website_agent None "Some ''Reception''" None] r(1)
    by (simp add: Let_def website_agent_members list_eq_iff_nth_eq less_Suc_eq example_member_def)
  have d: "get_team_members (state (fst (delete_team_member website_agent 1))) =
     [example_member ''Pam Beesly'' ''Design'']
   \<and> projects (state (fst (delete_team_member website_agent 1))) = projects (state website_agent)"
    using team_member_update_delete_frame[of 1 website_agent None None None] r(2)
    by (simp add: Let_def website_agent_members list_eq_iff_nth_eq)
  show ?thesis by (simp only: u d simp_thms)
qed

section \<open>Adding a project\<close>

lemma default_due_date_parses: "ascii_valid_Ymd ''2025-12-31''"
  by (simp add: ascii_valid_Ymd_def ascii_strptime_Ymd_def regex_match_Ymd_def ascii_digit_def
      after_dash_def month_alts_def day_alts_def digit_val_def days_in_month_def)

lemma day_first_does_not_parse: "\<not> ascii_valid_Ymd ''31-12-2025''"
  by (simp add: ascii_valid_Ymd_def ascii_strptime_Ymd_def regex_match_Ymd_def ascii_digit_def
      after_dash_def)

lemma february_30_does_not_parse: "\<not> ascii_valid_Ymd ''2025-02-30''"
  by (simp add: ascii_valid_Ymd_def ascii_strptime_Ymd_def regex_match_Ymd_def ascii_digit_def
      after_dash_def month_alts_def day_alts_def digit_val_def days_in_month_def is_leap_def)

lemma empty_does_not_parse: "\<not> ascii_valid_Ymd []"
  by (simp add: ascii_valid_Ymd_def ascii_strptime_Ymd_def regex_match_Ymd_def)

lemma add_project_invalid:
  assumes "due \<noteq> []" "\<not> valid_Ymd due"
  shows "add_project valid_Ymd today a n d (Some due) =
     (a, [(''action'', VStr ''add_project''), (''status'', VStr ''error''),
          (''message'', VStr (''Invalid date format: '' @ due @ ''. Please use YYYY-MM-DD format.''))])"
  using assms by (simp add: add_project_def Let_def)

lemma add_project_accepted:
  assumes "(dd = None \<and> valid_Ymd ''2025-12-31'') \<or> dd = Some []
     \<or> (\<exists>due. dd = Some due \<and> valid_Ymd due)"
  shows "add_project valid_Ymd today a n d dd =
     (update_state a (Projects (get_projects (state a) @
        [\<lparr>p_name = n,
          p_description = (case d of None \<Rightarrow> ''No description provided'' | Some v \<Rightarrow> v),
          p_due_date = (case dd of None \<Rightarrow> ''2025-12-31'' | Some v \<Rightarrow> v),
          p_tasks = Some [], p_created_at = today\<rparr>])),
      [(''action'', VStr ''add_project''), (''project'', VStr n),
       (''message'', VStr (''Added project: '' @ n @ '' with due date ''
          @ (case dd of None \<Rightarrow> ''2025-12-31'' | Some v \<Rightarrow> v)))])"
  using assms by (auto simp: add_project_def Let_def)

text \<open>
  C6 as stated fails for the empty string. It is not a date, and yet \<open>add_project\<close>
  accepts it, whatever the parser would say of it: the guard \<open>if due_date:\<close> skips the
  parse, and the project is appended with an empty due date.
\<close>

theorem add_project_empty_due_date_counterexample:
  "\<not> ascii_valid_Ymd []
   \<and> length (get_projects (state website_agent)) = 3
   \<and> (\<forall>valid_Ymd. length (get_projects (state (fst
          (add_project valid_Ymd ''2025-01-15'' website_agent ''Intranet'' None (Some []))))) = 4)
   \<and> (\<forall>valid_Ymd. map_of (snd
          (add_project valid_Ymd ''2025-01-15'' website_agent ''Intranet'' None (Some []))) ''status''
        = None)"
proof -
  have eq: "add_project valid_Ymd ''2025-01-15'' website_agent ''Intranet'' None (Some []) =
     (update_state website_agent (Projects (get_projects (state website_agent) @
        [\<lparr>p_name = ''Intranet'', p_description = ''No description provided'',
          p_due_date = [], p_tasks = Some [], p_created_at = ''2025-01-15''\<rparr>])),
      [(''action'', VStr ''add_project''), (''project'', VStr ''Intranet''),
       (''message'', VStr (''Added project: '' @ ''Intranet'' @ '' with due date '' @ []))])"
    for valid_Ymd
    using add_project_accepted[where dd = "Some []" and valid_Ymd = valid_Ymd
        and today = "''2025-01-15''" and a = website_agent and n = "''Intranet''" and d = None]
    by simp
  show ?thesis
    by (simp add: empty_does_not_parse website_agent_projects eq update_state_projects)
qed

text \<open>
  C6, as the code has it. For every non-empty \<open>due_date\<close> that \<open>strptime\<close> rejects (as it
  does \<open>31-12-2025\<close>), \<open>add_project\<close> returns the validation error and the agent as it
  was, so the project count is the same and nothing is written to the session store. For a
  \<open>due_date\<close> that \<open>strptime\<close> accepts, that is absent (it defaults to \<open>2025-12-31\<close>, which
  \<open>strptime\<close> accepts) or that is the empty string (which is not parsed at all), it appends
  exactly one new project with an empty tasks list at the end of the projects collection
  and writes the session. The verdict of \<open>strptime\<close> is the argument \<open>valid_Ymd\<close>.
\<close>

theorem add_project_date_validation:
  "(due \<noteq> [] \<and> \<not> valid_Ymd due \<longrightarrow>
      add_project valid_Ymd today a n d (Some due) =
        (a, [(''action'', VStr ''add_project''), (''status'', VStr ''error''),
             (''message'', VStr (''Invalid date format: '' @ due
                @ ''. Please use YYYY-MM-DD format.''))]))
   \<and> (\<not> valid_Ymd ''31-12-2025'' \<longrightarrow>
      add_project valid_Ymd today a n d (Some ''31-12-2025'') =
        (a, [(''action'', VStr ''add_project''), (''status'', VStr ''error''),
             (''message'', VStr ''Invalid date format: 31-12-2025. Please use YYYY-MM-DD format.'')]))
   \<and> ((dd = None \<and> valid_Ymd ''2025-12-31'') \<or> dd = Some []
         \<or> (\<exists>due. dd = Some due \<and> valid_Ymd due) \<longrightarrow>
      get_projects (state (fst (add_project valid_Ymd today a n d dd))) =
        get_projects (state a) @
          [\<lparr>p_name = n,
            p_description = (case d of None \<Rightarrow> ''No description provided'' | Some v \<Rightarrow> v),
            p_due_date = (case dd of None \<Rightarrow> ''2025-12-31'' | Some v \<Rightarrow> v),
            p_tasks = Some [], p_created_at = today\<rparr>]
      \<and> team_members (state (fst (add_project valid_Ymd today a n d dd))) = team_members (state a)
      \<and> user_name (state (fst (add_project valid_Ymd today a n d dd))) = user_name (state a)
      \<and> persisted (fst (add_project valid_Ymd today a n d dd)) =
          persisted a @ [(session_id a, state (fst (add_project valid_Ymd today a n d dd)))]
      \<and> map_of (snd (add_project valid_Ymd today a n d dd)) ''status'' = None)"
proof (intro conjI impI)
  assume "due \<noteq> [] \<and> \<not> valid_Ymd due"
  then show "add_project valid_Ymd today a n d (Some due) =
        (a, [(''action'', VStr ''add_project''), (''status'', VStr ''error''),
             (''message'', VStr (''Invalid date format: '' @ due
                @ ''. Please use YYYY-MM-DD format.''))])"
    by (simp add: add_project_invalid)
next
  assume "\<not> valid_Ymd ''31-12-2025''"
  then show "add_project valid_Ymd today a n d (Some ''31-12-2025'') =
        (a, [(''action'', VStr ''add_project''), (''status'', VStr ''error''),
             (''message'', VStr ''Invalid date format: 31-12-2025. Please use YYYY-MM-DD format.'')])"
    using add_project_invalid[where due = "''31-12-2025''" and valid_Ymd = valid_Ymd
        and today = today and a = a and n = n and d = d]
    by simp
next
  assume ok: "(dd = None \<and> valid_Ymd ''2025-12-31'') \<or> dd = Some []
         \<or> (\<exists>due. dd = Some due \<and> valid_Ymd due)"
  note eq = add_project_accepted[OF ok, where today = today and a = a and n = n and d = d]
  show "get_projects (state (fst (add_project valid_Ymd today a n d dd))) =
        get_projects (state a) @
          [\<lparr>p_name = n,
            p_description = (case d of None \<Rightarrow> ''No description provided'' | Some v \<Rightarrow> v),
            p_due_date = (case dd of None \<Rightarrow> ''2025-12-31'' | Some v \<Rightarrow> v),
            p_tasks = Some [], p_created_at = today\<rparr>]"
    by (simp add: eq update_state_projects)
  show "team_members (state (fst (add_project valid_Ymd today a n d dd))) = team_members (state a)"
    by (simp add: eq update_state_projects)
  show "user_name (state (fst (add_project valid_Ymd today a n d dd))) = user_name (state a)"
    by (simp add: eq update_state_projects)
  show "persisted (fst (add_project valid_Ymd today a n d dd)) =
          persisted a @ [(session_id a, state (fst (add_project valid_Ymd today a n d dd)))]"
    by (simp add: eq update_state_projects)
  show "map_of (snd (add_project valid_Ymd today a n d dd)) ''status'' = None"
    by (simp add: eq)
qed

theorem add_project_date_validation_witness:
  "fst (add_project ascii_valid_Ymd ''2025-01-15'' website_agent ''Intranet'' None (Some ''2025-02-30''))
     = website_agent
   \<and> fst (add_project ascii_valid_Ymd ''2025-01-15'' website_agent ''Intranet'' None (Some ''31-12-2025''))
     = website_agent
   \<and> map (\<lambda>p. (p_name p, p_due_date p, p_tasks p))
       (get_projects (state (fst (add_project ascii_valid_Ymd ''2025-01-15'' website_agent ''Intranet'' None None)))) =
       [(''Website Redesign'', ''2025-12-31'', Some []), (''Website Launch'', ''2025-12-31'', Some []),
        (''Mobile App'', ''2025-12-31'', Some []), (''Intranet'', ''2025-12-31'', Some [])]"
proof -
  have bad: "''2025-02-30'' \<noteq> [] \<and> \<not> ascii_valid_Ymd ''2025-02-30''"
    by (simp add: february_30_does_not_parse)
  have a: "fst (add_project ascii_valid_Ymd ''2025-01-15'' website_agent ''Intranet'' None (Some ''2025-02-30''))
      = website_agent"
    using add_project_date_validation[where valid_Ymd = ascii_valid_Ymd and due = "''2025-02-30''"
        and today = "''2025-01-15''" and a = website_agent and n = "''Intranet''" and d = None,
        THEN conjunct1, THEN mp, OF bad]
    by simp
  have c: "fst (add_project ascii_valid_Ymd ''2025-01-15'' website_agent ''Intranet'' None (Some ''31-12-2025''))
      = website_agent"
    using add_project_date_validation[where valid_Ymd = ascii_valid_Ymd
        and today = "''2025-01-15''" and a = website_agent and n = "''Intranet''" and d = None,
        THEN conjunct2, THEN conjunct1, THEN mp, OF day_first_does_not_parse]
    by simp
  have ok: "((None :: string option) = None \<and> ascii_valid_Ymd ''2025-12-31'') \<or> None = Some []
         \<or> (\<exists>due. None = Some due \<and> ascii_valid_Ymd due)"
    by (simp add: default_due_date_parses)
  have b: "map (\<lambda>p. (p_name p, p_due_date p, p_tasks p))
       (get_projects (state (fst (add_project ascii_valid_Ymd ''2025-01-15'' website_agent ''Intranet'' None None)))) =
       [(''Website Redesign'', ''2025-12-31'', Some []), (''Website Launch'', ''2025-12-31'', Some []),
        (''Mobile App'', ''2025-12-31'', Some []), (''Intranet'', ''2025-12-31'', Some [])]"
    using add_project_date_validation[where valid_Ymd = ascii_valid_Ymd and dd = None
        and today = "''2025-01-15''" and a = website_agent and n = "''Intranet''" and d = None,
        THEN conjunct2, THEN conjunct2, THEN mp, OF ok]
    by (simp add: website_agent_projects example_project_def)
  show ?thesis by (simp only: a b c simp_thms)
qed

section \<open>Adding a task by project name\<close>

lemma spec_matches_in_range:
  assumes "(i, p) \<in> set (spec_matches lower g q xs)"
  shows "1 \<le> i \<and> i \<le> int (length xs) \<and> p = xs ! nat (i - 1)"
  using assms by (auto simp: spec_matches_def)

lemma find_project_result:
  "find_project_by_name lower a q =
     (case spec_matches lower p_name q (get_projects (state a)) of
        [] \<Rightarrow> [(''action'', VStr ''find_project_by_name''), (''status'', VStr ''not_found''),
               (''message'', VStr (''No project found with name containing '' @ quoted q))]
      | [m] \<Rightarrow> [(''action'', VStr ''find_project_by_name''), (''status'', VStr ''found''),
                (''match'', VProjectMatch m),
                (''message'', VStr (''Found project: '' @ p_name (snd m) @ '' at index ''
                   @ str_int (fst m)))]
      | m # m' # ms \<Rightarrow>
               [(''action'', VStr ''find_project_by_name''), (''status'', VStr ''multiple_matches''),
                (''matches'', VProjectMatches (m # m' # ms)),
                (''message'', VStr (''Found '' @ str_int (int (length (m # m' # ms)))
                   @ '' projects matching '' @ quoted q))])"
  by (simp add: find_project_by_name_def find_loop_spec Let_def split: list.splits)

lemma add_task_by_name_not_found:
  assumes "spec_matches lower p_name q (get_projects (state a)) = []"
  shows "add_task_by_project_name lower today a q tn at d dd pr =
     Inr (a, [(''action'', VStr ''add_task_by_project_name''), (''status'', VStr ''error''),
              (''message'', VStr (''Could not find project '' @ quoted q
                 @ ''. Please check the project name or create it first.''))])"
  by (simp add: add_task_by_project_name_def find_project_result assms)

lemma add_task_by_name_ambiguous:
  assumes "1 < length (spec_matches lower p_name q (get_projects (state a)))"
  shows "add_task_by_project_name lower today a q tn at d dd pr =
     Inr (a, [(''action'', VStr ''add_task_by_project_name''), (''status'', VStr ''error''),
              (''message'', VStr (''Found multiple projects matching '' @ quoted q @ '':'' @ newline
                 @ join newline (map (\<lambda>m. str_int (fst m) @ ''. '' @ p_name (snd m))
                     (spec_matches lower p_name q (get_projects (state a))))
                 @ newline @ ''Please be more specific.''))])"
proof -
  obtain m m' ms where "spec_matches lower p_name q (get_projects (state a)) = m # m' # ms"
  proof (cases "spec_matches lower p_name q (get_projects (state a))")
    case Nil
    with assms show ?thesis by simp
  next
    case (Cons m rest)
    with assms obtain m' ms where "rest = m' # ms" by (cases rest) auto
    with Cons that show ?thesis by simp
  qed
  then show ?thesis
    by (simp add: add_task_by_project_name_def find_project_result project_list_def)
qed

lemma add_task_by_name_unique:
  assumes "spec_matches lower p_name q (get_projects (state a)) = [(i, p)]"
  shows "add_task_by_project_name lower today a q tn at d dd pr = add_task today a i tn at d dd pr"
  by (simp add: add_task_by_project_name_def find_project_result assms)

text \<open>
  C7. Whatever the lower-casing function is, \<open>add_task_by_project_name\<close> resolves the
  project with \<open>find_project_by_name\<close>. On no match it returns an error and the agent
  as it was. On more than one match it returns an
  error whose message lists every matching project as \<open>index. name\<close>, one per line in
  collection order, and the agent as it was: no match is picked. On exactly one match it
  is \<open>add_task\<close> at the resolved 1-based index, which lies within the collection. So the
  agent changes only when the name resolves to exactly one project.
\<close>

theorem add_task_by_project_name_resolution:
  "(spec_matches lower p_name q (get_projects (state a)) = [] \<longrightarrow>
      add_task_by_project_name lower today a q tn at d dd pr =
        Inr (a, [(''action'', VStr ''add_task_by_project_name''), (''status'', VStr ''error''),
                 (''message'', VStr (''Could not find project '' @ quoted q
                    @ ''. Please check the project name or create it first.''))]))
   \<and> (1 < length (spec_matches lower p_name q (get_projects (state a))) \<longrightarrow>
      add_task_by_project_name lower today a q tn at d dd pr =
        Inr (a, [(''action'', VStr ''add_task_by_project_name''), (''status'', VStr ''error''),
                 (''message'', VStr (''Found multiple projects matching '' @ quoted q @ '':''
                    @ newline
                    @ join newline (map (\<lambda>m. str_int (fst m) @ ''. '' @ p_name (snd m))
                        (spec_matches lower p_name q (get_projects (state a))))
                    @ newline @ ''Please be more specific.''))]))
   \<and> (\<forall>i p. spec_matches lower p_name q (get_projects (state a)) = [(i, p)] \<longrightarrow>
      add_task_by_project_name lower today a q tn at d dd pr = add_task today a i tn at d dd pr
      \<and> 1 \<le> i \<and> i \<le> int (length (get_projects (state a)))
      \<and> p = get_projects (state a) ! nat (i - 1))
   \<and> (\<forall>a' r. add_task_by_project_name lower today a q tn at d dd pr = Inr (a', r) \<and> a' \<noteq> a \<longrightarrow>
      length (spec_matches lower p_name q (get_projects (state a))) = 1)"
proof (intro conjI impI allI)
  assume "spec_matches lower p_name q (get_projects (state a)) = []"
  then show "add_task_by_project_name lower today a q tn at d dd pr =
        Inr (a, [(''action'', VStr ''add_task_by_project_name''), (''status'', VStr ''error''),
                 (''message'', VStr (''Could not find project '' @ quoted q
                    @ ''. Please check the project name or create it first.''))])"
    by (rule add_task_by_name_not_found)
next
  assume "1 < length (spec_matches lower p_name q (get_projects (state a)))"
  then show "add_task_by_project_name lower today a q tn at d dd pr =
        Inr (a, [(''action'', VStr ''add_task_by_project_name''), (''status'', VStr ''error''),
                 (''message'', VStr (''Found multiple projects matching '' @ quoted q @ '':''
                    @ newline
                    @ join newline (map (\<lambda>m. str_int (fst m) @ ''. '' @ p_name (snd m))
                        (spec_matches lower p_name q (get_projects (state a))))
                    @ newline @ ''Please be more specific.''))])"
    by (rule add_task_by_name_ambiguous)
next
  fix i p
  assume u: "spec_matches lower p_name q (get_projects (state a)) = [(i, p)]"
  then show "add_task_by_project_name lower today a q tn at d dd pr = add_task today a i tn at d dd pr"
    by (rule add_task_by_name_unique)
  from u have "(i, p) \<in> set (spec_matches lower p_name q (get_projects (state a)))" by simp
  from spec_matches_in_range[OF this]
  show "1 \<le> i" "i \<le> int (length (get_projects (state a)))"
    "p = get_projects (state a) ! nat (i - 1)"
    by simp_all
next
  fix a' r
  assume c: "add_task_by_project_name lower today a q tn at d dd pr = Inr (a', r) \<and> a' \<noteq> a"
  show "length (spec_matches lower p_name q (get_projects (state a))) = 1"
  proof (rule ccontr)
    assume "length (spec_matches lower p_name q (get_projects (state a))) \<noteq> 1"
    then have "spec_matches lower p_name q (get_projects (state a)) = []
        \<or> 1 < length (spec_matches lower p_name q (get_projects (state a)))"
      by (cases "spec_matches lower p_name q (get_projects (state a))") auto
    then show False
      using c add_task_by_name_not_found[of lower q a today tn at d dd pr]
        add_task_by_name_ambiguous[of lower q a today tn at d dd pr]
      by auto
  qed
qed

theorem add_task_by_project_name_resolution_witness:
  "add_task_by_project_name ascii_lower ''2025-01-15'' website_agent ''web'' ''Write spec'' None None None None =
     Inr (website_agent,
          [(''action'', VStr ''add_task_by_project_name''), (''status'', VStr ''error''),
           (''message'', VStr (''Found multiple projects matching '' @ quoted ''web'' @ '':''
              @ newline @ ''1. Website Redesign'' @ newline @ ''2. Website Launch''
              @ newline @ ''Please be more specific.''))])
   \<and> add_task_by_project_name ascii_lower ''2025-01-15'' website_agent ''mobile'' ''Write spec'' None None None None =
       add_task ''2025-01-15'' website_agent 3 ''Write spec'' None None None None
   \<and> add_task_by_project_name ascii_lower ''2025-01-15'' website_agent ''zzz'' ''Write spec'' None None None None =
     Inr (website_agent,
          [(''action'', VStr ''add_task_by_project_name''), (''status'', VStr ''error''),
           (''message'', VStr (''Could not find project '' @ quoted ''zzz''
              @ ''. Please check the project name or create it first.''))])
   \<and> (\<exists>a' r. add_task_by_project_name ascii_lower ''2025-01-15'' website_agent ''mobile'' ''Write spec''
                  None None None None = Inr (a', r)
        \<and> length (persisted a') = 1
        \<and> length (spec_matches ascii_lower p_name ''mobile'' (get_projects (state website_agent))) = 1)"
proof -
  have web: "spec_matches ascii_lower p_name ''web'' (get_projects (state website_agent)) =
      [(1, example_project ''Website Redesign'' []), (2, example_project ''Website Launch'' [])]"
    by (simp add: website_agent_projects spec_matches_three example_project_def ascii_lower_def
        lower_char_def)
  have mobile: "spec_matches ascii_lower p_name ''mobile'' (get_projects (state website_agent)) =
      [(3, example_project ''Mobile App'' [])]"
    by (simp add: website_agent_projects spec_matches_three example_project_def ascii_lower_def
        lower_char_def)
  have zzz: "spec_matches ascii_lower p_name ''zzz'' (get_projects (state website_agent)) = []"
    by (simp add: website_agent_projects spec_matches_three example_project_def ascii_lower_def
        lower_char_def)
  have w: "add_task_by_project_name ascii_lower ''2025-01-15'' website_agent ''web'' ''Write spec'' None None None None =
     Inr (website_agent,
          [(''action'', VStr ''add_task_by_project_name''), (''status'', VStr ''error''),
           (''message'', VStr (''Found multiple projects matching '' @ quoted ''web'' @ '':''
              @ newline @ ''1. Website Redesign'' @ newline @ ''2. Website Launch''
              @ newline @ ''Please be more specific.''))])"
    using add_task_by_project_name_resolution[of ascii_lower "''web''" website_agent "''2025-01-15''"
        "''Write spec''" None None None None]
    by (simp add: web str_int_def example_project_def)
  have m: "add_task_by_project_name ascii_lower ''2025-01-15'' website_agent ''mobile'' ''Write spec'' None None None None =
       add_task ''2025-01-15'' website_agent 3 ''Write spec'' None None None None"
    using add_task_by_project_name_resolution[of ascii_lower "''mobile''" website_agent "''2025-01-15''"
        "''Write spec''" None None None None]
    by (simp add: mobile)
  have z: "add_task_by_project_name ascii_lower ''2025-01-15'' website_agent ''zzz'' ''Write spec'' None None None None =
     Inr (website_agent,
          [(''action'', VStr ''add_task_by_project_name''), (''status'', VStr ''error''),
           (''message'', VStr (''Could not find project '' @ quoted ''zzz''
              @ ''. Please check the project name or create it first.''))])"
    using add_task_by_project_name_resolution[of ascii_lower "''zzz''" website_agent "''2025-01-15''"
        "''Write spec''" None None None None]
    by (simp add: zzz)
  have rng: "(1::int) \<le> 3" "3 \<le> int (length (get_projects (state website_agent)))"
    by (simp_all add: website_agent_projects)
  have pt: "p_tasks (get_projects (state website_agent) ! nat (3 - 1)) = Some []"
    by (simp add: website_agent_projects example_project_def)
  obtain a' r where ar: "add_task ''2025-01-15'' website_agent 3 ''Write spec'' None None None None
      = Inr (a', r)"
    and a': "a' = update_state website_agent (Projects ((get_projects (state website_agent))[nat (3 - 1) :=
                 (get_projects (state website_agent) ! nat (3 - 1))\<lparr>p_tasks := Some ([] @
                   [\<lparr>t_name = ''Write spec'',
                     t_description = ''No description provided'',
                     t_assigned_to = ''Unassigned'',
                     t_due_date = ''2025-12-31'',
                     t_priority = ''medium'',
                     t_status = Some ''pending'', t_created_at = ''2025-01-15''\<rparr>])\<rparr>]))"
    unfolding add_task_in_range[OF rng] pt by simp
  have once: "length (persisted a') = 1"
    by (simp add: a' update_state_projects website_agent_def example_agent_def)
  then have ne: "a' \<noteq> website_agent"
    by (auto simp: website_agent_def example_agent_def)
  have uniq: "length (spec_matches ascii_lower p_name ''mobile'' (get_projects (state website_agent))) = 1"
    using add_task_by_project_name_resolution[where lower = ascii_lower and a = website_agent and q = "''mobile''"
        and today = "''2025-01-15''" and tn = "''Write spec''" and at = None and d = None
        and dd = None and pr = None,
        THEN conjunct2, THEN conjunct2, THEN conjunct2, rule_format, of a' r]
      m ar ne
    by simp
  have e: "\<exists>a' r. add_task_by_project_name ascii_lower ''2025-01-15'' website_agent ''mobile'' ''Write spec''
                  None None None None = Inr (a', r)
        \<and> length (persisted a') = 1
        \<and> length (spec_matches ascii_lower p_name ''mobile'' (get_projects (state website_agent))) = 1"
    by (rule exI[of _ a'], rule exI[of _ r]) (simp only: m ar once uniq simp_thms)
  show ?thesis by (intro conjI; (rule w | rule m | rule z | rule e))
qed

section \<open>Updating a task's status\<close>

lemma first_match_None:
  "first_match lower g q xs i = None \<longleftrightarrow> (\<forall>x \<in> set xs. \<not> contains (lower q) (lower (g x)))"
  by (induction xs arbitrary: i) auto

lemma first_match_least:
  assumes "k < length xs" "contains (lower q) (lower (g (xs ! k)))"
    "\<forall>j < k. \<not> contains (lower q) (lower (g (xs ! j)))"
  shows "first_match lower g q xs i = Some (i + k)"
  using assms
proof (induction xs arbitrary: i k)
  case Nil
  then show ?case by simp
next
  case (Cons x xs)
  show ?case
  proof (cases k)
    case 0
    with Cons.prems show ?thesis by simp
  next
    case (Suc k')
    from Cons.prems(3) Suc have nx: "\<not> contains (lower q) (lower (g x))" by auto
    from Cons.prems Suc have "first_match lower g q xs (Suc i) = Some (Suc i + k')"
      by (intro Cons.IH) auto
    with nx Suc show ?thesis by simp
  qed
qed

lemma update_task_status_no_project:
  assumes "\<forall>p \<in> set (get_projects (state a)). \<not> contains (lower pn) (lower (p_name p))"
  shows "update_task_status lower a pn tn ns =
     (a, [(''action'', VStr ''update_task_status''), (''status'', VStr ''error''),
          (''message'', VStr (''Could not find project containing '' @ quoted pn @ ''.''))])"
  using assms first_match_None[of lower p_name pn "get_projects (state a)" 0]
  by (simp add: update_task_status_def)

lemma update_task_status_no_task:
  assumes "pi < length (get_projects (state a))"
    "contains (lower pn) (lower (p_name (get_projects (state a) ! pi)))"
    "\<forall>j < pi. \<not> contains (lower pn) (lower (p_name (get_projects (state a) ! j)))"
    "\<forall>t \<in> set (get_tasks (get_projects (state a) ! pi)). \<not> contains (lower tn) (lower (t_name t))"
  shows "update_task_status lower a pn tn ns =
     (a, [(''action'', VStr ''update_task_status''), (''status'', VStr ''error''),
          (''message'', VStr (''Could not find task '' @ quoted tn @ '' in project ''
             @ quoted (p_name (get_projects (state a) ! pi)) @ ''.''))])"
  using first_match_least[where lower = lower and g = p_name and i = 0, OF assms(1-3)]
    first_match_None[of lower t_name tn "get_tasks (get_projects (state a) ! pi)" 0] assms(4)
  by (simp add: update_task_status_def Let_def)

lemma update_task_status_found:
  assumes "pi < length (get_projects (state a))"
    "contains (lower pn) (lower (p_name (get_projects (state a) ! pi)))"
    "\<forall>j < pi. \<not> contains (lower pn) (lower (p_name (get_projects (state a) ! j)))"
    "ti < length (get_tasks (get_projects (state a) ! pi))"
    "contains (lower tn) (lower (t_name (get_tasks (get_projects (state a) ! pi) ! ti)))"
    "\<forall>j < ti. \<not> contains (lower tn) (lower (t_name (get_tasks (get_projects (state a) ! pi) ! j)))"
  shows "update_task_status lower a pn tn ns =
     (update_state a (Projects ((get_projects (state a))[pi :=
        (get_projects (state a) ! pi)\<lparr>p_tasks := Some ((get_tasks (get_projects (state a) ! pi))[ti :=
           (get_tasks (get_projects (state a) ! pi) ! ti)\<lparr>t_status := Some (lower ns)\<rparr>])\<rparr>])),
      [(''action'', VStr ''update_task_status''), (''status'', VStr ''success''),
       (''project'', VStr (p_name (get_projects (state a) ! pi))),
       (''task'', VStr (t_name (get_tasks (get_projects (state a) ! pi) ! ti))),
       (''old_status'', VStr (get_status (get_tasks (get_projects (state a) ! pi) ! ti))),
       (''new_status'', VStr ns),
       (''message'', VStr (''Updated task ''
          @ quoted (t_name (get_tasks (get_projects (state a) ! pi) ! ti))
          @ '' status from '' @ quoted (get_status (get_tasks (get_projects (state a) ! pi) ! ti))
          @ '' to '' @ quoted ns @ '' in project ''
          @ quoted (p_name (get_projects (state a) ! pi)) @ ''.''))])"
  using first_match_least[where lower = lower and g = p_name and i = 0, OF assms(1-3)]
    first_match_least[where lower = lower and g = t_name and i = 0, OF assms(4-6)]
  by (simp add: update_task_status_def Let_def)

text \<open>
  C5 as stated fails for a \<open>new_status\<close> with a capital letter, here \<open>Completed\<close>, which
  lower-cases to \<open>completed\<close>. The status stored is
  the lower-cased \<open>new_status\<close>; the status reported under \<open>new_status\<close> is the
  argument as it was passed, which is then not the task's new status value.
\<close>

theorem update_task_status_report_counterexample:
  "map (map t_status \<circ> get_tasks)
       (get_projects (state (fst (update_task_status ascii_lower alpha_agent ''Alpha'' ''Write spec'' ''Completed''))))
     = [[Some ''completed'']]
   \<and> map_of (snd (update_task_status ascii_lower alpha_agent ''Alpha'' ''Write spec'' ''Completed'')) ''new_status''
     = Some (VStr ''Completed'')
   \<and> ''Completed'' \<noteq> ''completed''"
proof -
  have "update_task_status ascii_lower alpha_agent ''Alpha'' ''Write spec'' ''Completed'' =
     (update_state alpha_agent (Projects ((get_projects (state alpha_agent))[0 :=
        (get_projects (state alpha_agent) ! 0)\<lparr>p_tasks := Some ((get_tasks (get_projects (state alpha_agent) ! 0))[0 :=
           (get_tasks (get_projects (state alpha_agent) ! 0) ! 0)\<lparr>t_status := Some (ascii_lower ''Completed'')\<rparr>])\<rparr>])),
      [(''action'', VStr ''update_task_status''), (''status'', VStr ''success''),
       (''project'', VStr (p_name (get_projects (state alpha_agent) ! 0))),
       (''task'', VStr (t_name (get_tasks (get_projects (state alpha_agent) ! 0) ! 0))),
       (''old_status'', VStr (get_status (get_tasks (get_projects (state alpha_agent) ! 0) ! 0))),
       (''new_status'', VStr ''Completed''),
       (''message'', VStr (''Updated task ''
          @ quoted (t_name (get_tasks (get_projects (state alpha_agent) ! 0) ! 0))
          @ '' status from '' @ quoted (get_status (get_tasks (get_projects (state alpha_agent) ! 0) ! 0))
          @ '' to '' @ quoted ''Completed'' @ '' in project ''
          @ quoted (p_name (get_projects (state alpha_agent) ! 0)) @ ''.''))])"
    by (rule update_task_status_found)
      (simp_all add: alpha_agent_projects example_project_def example_task_def get_tasks_def
        ascii_lower_def lower_char_def)
  then show ?thesis
    by (simp add: update_state_projects alpha_agent_projects example_project_def
        example_task_def get_tasks_def ascii_lower_def lower_char_def)
qed

text \<open>
  C5, as the code has it. Whatever the lower-casing function is, \<open>update_task_status\<close>
  takes the first project whose lower-cased name contains the lower-cased \<open>project_name\<close>
  and, in it, the first task whose lower-cased name contains the lower-cased \<open>task_name\<close>.
  When no project or no task matches it returns an error and the
  agent as it was. Otherwise it overwrites that task's status with the lower-cased
  \<open>new_status\<close>, writes the session, and reports under \<open>old_status\<close> the status the task
  had (\<open>pending\<close> when it had none) and under \<open>new_status\<close> the argument exactly as passed,
  not lower-cased.
\<close>

theorem update_task_status_first_match:
  "((\<forall>p \<in> set (get_projects (state a)). \<not> contains (lower pn) (lower (p_name p))) \<longrightarrow>
      update_task_status lower a pn tn ns =
        (a, [(''action'', VStr ''update_task_status''), (''status'', VStr ''error''),
             (''message'', VStr (''Could not find project containing '' @ quoted pn @ ''.''))]))
   \<and> (pi < length (get_projects (state a))
        \<and> contains (lower pn) (lower (p_name (get_projects (state a) ! pi)))
        \<and> (\<forall>j < pi. \<not> contains (lower pn) (lower (p_name (get_projects (state a) ! j)))) \<longrightarrow>
      ((\<forall>t \<in> set (get_tasks (get_projects (state a) ! pi)).
            \<not> contains (lower tn) (lower (t_name t))) \<longrightarrow>
         update_task_status lower a pn tn ns =
           (a, [(''action'', VStr ''update_task_status''), (''status'', VStr ''error''),
                (''message'', VStr (''Could not find task '' @ quoted tn @ '' in project ''
                   @ quoted (p_name (get_projects (state a) ! pi)) @ ''.''))]))
      \<and> (ti < length (get_tasks (get_projects (state a) ! pi))
           \<and> contains (lower tn) (lower (t_name (get_tasks (get_projects (state a) ! pi) ! ti)))
           \<and> (\<forall>j < ti. \<not> contains (lower tn)
                  (lower (t_name (get_tasks (get_projects (state a) ! pi) ! j)))) \<longrightarrow>
         get_projects (state (fst (update_task_status lower a pn tn ns))) =
           (get_projects (state a))[pi :=
              (get_projects (state a) ! pi)\<lparr>p_tasks :=
                 Some ((get_tasks (get_projects (state a) ! pi))[ti :=
                    (get_tasks (get_projects (state a) ! pi) ! ti)\<lparr>t_status := Some (lower ns)\<rparr>])\<rparr>]
         \<and> team_members (state (fst (update_task_status lower a pn tn ns))) = team_members (state a)
         \<and> user_name (state (fst (update_task_status lower a pn tn ns))) = user_name (state a)
         \<and> persisted (fst (update_task_status lower a pn tn ns)) =
             persisted a @ [(session_id a, state (fst (update_task_status lower a pn tn ns)))]
         \<and> map_of (snd (update_task_status lower a pn tn ns)) ''status'' = Some (VStr ''success'')
         \<and> map_of (snd (update_task_status lower a pn tn ns)) ''old_status'' =
             Some (VStr (get_status (get_tasks (get_projects (state a) ! pi) ! ti)))
         \<and> map_of (snd (update_task_status lower a pn tn ns)) ''new_status'' = Some (VStr ns)))"
proof (intro conjI impI)
  assume "\<forall>p \<in> set (get_projects (state a)). \<not> contains (lower pn) (lower (p_name p))"
  then show "update_task_status lower a pn tn ns =
        (a, [(''action'', VStr ''update_task_status''), (''status'', VStr ''error''),
             (''message'', VStr (''Could not find project containing '' @ quoted pn @ ''.''))])"
    by (rule update_task_status_no_project)
next
  assume p: "pi < length (get_projects (state a))
        \<and> contains (lower pn) (lower (p_name (get_projects (state a) ! pi)))
        \<and> (\<forall>j < pi. \<not> contains (lower pn) (lower (p_name (get_projects (state a) ! j))))"
    and t: "\<forall>t \<in> set (get_tasks (get_projects (state a) ! pi)).
            \<not> contains (lower tn) (lower (t_name t))"
  from p t show "update_task_status lower a pn tn ns =
           (a, [(''action'', VStr ''update_task_status''), (''status'', VStr ''error''),
                (''message'', VStr (''Could not find task '' @ quoted tn @ '' in project ''
                   @ quoted (p_name (get_projects (state a) ! pi)) @ ''.''))])"
    by (intro update_task_status_no_task) simp_all
next
  assume p: "pi < length (get_projects (state a))
        \<and> contains (lower pn) (lower (p_name (get_projects (state a) ! pi)))
        \<and> (\<forall>j < pi. \<not> contains (lower pn) (lower (p_name (get_projects (state a) ! j))))"
    and t: "ti < length (get_tasks (get_projects (state a) ! pi))
           \<and> contains (lower tn) (lower (t_name (get_tasks (get_projects (state a) ! pi) ! ti)))
           \<and> (\<forall>j < ti. \<not> contains (lower tn)
                  (lower (t_name (get_tasks (get_projects (state a) ! pi) ! j))))"
  have eq: "update_task_status lower a pn tn ns =
     (update_state a (Projects ((get_projects (state a))[pi :=
        (get_projects (state a) ! pi)\<lparr>p_tasks := Some ((get_tasks (get_projects (state a) ! pi))[ti :=
           (get_tasks (get_projects (state a) ! pi) ! ti)\<lparr>t_status := Some (lower ns)\<rparr>])\<rparr>])),
      [(''action'', VStr ''update_task_status''), (''status'', VStr ''success''),
       (''project'', VStr (p_name (get_projects (state a) ! pi))),
       (''task'', VStr (t_name (get_tasks (get_projects (state a) ! pi) ! ti))),
       (''old_status'', VStr (get_status (get_tasks (get_projects (state a) ! pi) ! ti))),
       (''new_status'', VStr ns),
       (''message'', VStr (''Updated task ''
          @ quoted (t_name (get_tasks (get_projects (state a) ! pi) ! ti))
          @ '' status from '' @ quoted (get_status (get_tasks (get_projects (state a) ! pi) ! ti))
          @ '' to '' @ quoted ns @ '' in project ''
          @ quoted (p_name (get_projects (state a) ! pi)) @ ''.''))])"
    using p t by (intro update_task_status_found) simp_all
  show "get_projects (state (fst (update_task_status lower a pn tn ns))) =
           (get_projects (state a))[pi :=
              (get_projects (state a) ! pi)\<lparr>p_tasks :=
                 Some ((get_tasks (get_projects (state a) ! pi))[ti :=
                    (get_tasks (get_projects (state a) ! pi) ! ti)\<lparr>t_status := Some (lower ns)\<rparr>])\<rparr>]"
    by (simp add: eq update_state_projects)
  show "team_members (state (fst (update_task_status lower a pn tn ns))) = team_members (state a)"
    by (simp add: eq update_state_projects)
  show "user_name (state (fst (update_task_status lower a pn tn ns))) = user_name (state a)"
    by (simp add: eq update_state_projects)
  show "persisted (fst (update_task_status lower a pn tn ns)) =
             persisted a @ [(session_id a, state (fst (update_task_status lower a pn tn ns)))]"
    by (simp add: eq update_state_projects)
  show "map_of (snd (update_task_status lower a pn tn ns)) ''status'' = Some (VStr ''success'')"
    by (simp add: eq)
  show "map_of (snd (update_task_status lower a pn tn ns)) ''old_status'' =
             Some (VStr (get_status (get_tasks (get_projects (state a) ! pi) ! ti)))"
    by (simp add: eq)
  show "map_of (snd (update_task_status lower a pn tn ns)) ''new_status'' = Some (VStr ns)"
    by (simp add: eq)
qed

theorem update_task_status_first_match_witness:
  "map (map (\<lambda>t. (t_name t, t_status t)) \<circ> get_tasks)
       (get_projects (state (fst (update_task_status ascii_lower design_agent ''APP'' ''write'' ''DONE''))))
     = [[(''Design homepage'', Some ''pending''), (''Design logo'', Some ''completed'')],
        [(''Set up CI'', Some ''Completed''), (''Write tests'', Some ''done'')]]
   \<and> map_of (snd (update_task_status ascii_lower design_agent ''APP'' ''write'' ''DONE'')) ''old_status''
     = Some (VStr ''pending'')
   \<and> map_of (snd (update_task_status ascii_lower design_agent ''APP'' ''write'' ''DONE'')) ''new_status''
     = Some (VStr ''DONE'')
   \<and> fst (update_task_status ascii_lower design_agent ''zzz'' ''write'' ''DONE'') = design_agent
   \<and> fst (update_task_status ascii_lower design_agent ''web'' ''write'' ''DONE'') = design_agent"
proof -
  have nop: "\<forall>p \<in> set (get_projects (state design_agent)). \<not> contains (ascii_lower ''zzz'') (ascii_lower (p_name p))"
    by (simp add: design_agent_projects example_project_def ascii_lower_def lower_char_def)
  have z: "fst (update_task_status ascii_lower design_agent ''zzz'' ''write'' ''DONE'') = design_agent"
    using update_task_status_first_match[where lower = ascii_lower and a = design_agent
        and pn = "''zzz''" and tn = "''write''" and ns = "''DONE''"] nop
    by simp
  have p0: "0 < length (get_projects (state design_agent))
        \<and> contains (ascii_lower ''web'') (ascii_lower (p_name (get_projects (state design_agent) ! 0)))
        \<and> (\<forall>j < 0. \<not> contains (ascii_lower ''web'') (ascii_lower (p_name (get_projects (state design_agent) ! j))))"
    by (simp add: design_agent_projects example_project_def ascii_lower_def lower_char_def)
  have t0: "\<forall>t \<in> set (get_tasks (get_projects (state design_agent) ! 0)).
            \<not> contains (ascii_lower ''write'') (ascii_lower (t_name t))"
    by (simp add: design_agent_projects example_project_def example_task_def get_tasks_def
        ascii_lower_def lower_char_def)
  note nt = update_task_status_first_match[where lower = ascii_lower and a = design_agent and pn = "''web''"
      and tn = "''write''" and ns = "''DONE''" and pi = 0,
      THEN conjunct2, THEN mp, THEN conjunct1, THEN mp]
  have w: "fst (update_task_status ascii_lower design_agent ''web'' ''write'' ''DONE'') = design_agent"
    by (simp add: nt[OF p0 t0])
  have p1: "1 < length (get_projects (state design_agent))
        \<and> contains (ascii_lower ''APP'') (ascii_lower (p_name (get_projects (state design_agent) ! 1)))
        \<and> (\<forall>j < 1. \<not> contains (ascii_lower ''APP'') (ascii_lower (p_name (get_projects (state design_agent) ! j))))"
    by (simp add: design_agent_projects example_project_def ascii_lower_def lower_char_def)
  have t1: "1 < length (get_tasks (get_projects (state design_agent) ! 1))
           \<and> contains (ascii_lower ''write'') (ascii_lower (t_name (get_tasks (get_projects (state design_agent) ! 1) ! 1)))
           \<and> (\<forall>j < 1. \<not> contains (ascii_lower ''write'')
                  (ascii_lower (t_name (get_tasks (get_projects (state design_agent) ! 1) ! j))))"
    by (simp add: design_agent_projects example_project_def example_task_def get_tasks_def
        ascii_lower_def lower_char_def)
  note ok = update_task_status_first_match[where lower = ascii_lower and a = design_agent and pn = "''APP''"
      and tn = "''write''" and ns = "''DONE''" and pi = 1 and ti = 1,
      THEN conjunct2, THEN mp, THEN conjunct2, THEN mp]
  have u: "map (map (\<lambda>t. (t_name t, t_status t)) \<circ> get_tasks)
       (get_projects (state (fst (update_task_status ascii_lower design_agent ''APP'' ''write'' ''DONE''))))
     = [[(''Design homepage'', Some ''pending''), (''Design logo'', Some ''completed'')],
        [(''Set up CI'', Some ''Completed''), (''Write tests'', Some ''done'')]]"
    by (simp add: ok[OF p1 t1, THEN conjunct1] design_agent_projects example_project_def
        example_task_def get_tasks_def ascii_lower_def lower_char_def)
  have o: "map_of (snd (update_task_status ascii_lower design_agent ''APP'' ''write'' ''DONE'')) ''old_status''
     = Some (VStr ''pending'')"
    using ok[OF p1 t1]
    by (simp add: design_agent_projects example_project_def example_task_def get_tasks_def
        get_status_def)
  have n: "map_of (snd (update_task_status ascii_lower design_agent ''APP'' ''write'' ''DONE'')) ''new_status''
     = Some (VStr ''DONE'')"
    using ok[OF p1 t1] by simp
  show ?thesis by (simp only: u o n z w simp_thms)
qed

section \<open>Bulk removal of tasks\<close>

lemma delete_tasks_inner_filter:
  "delete_tasks_inner lower q ts rem cnt =
     (rem @ filter (\<lambda>t. \<not> task_matches lower q t) ts, cnt + int (length (filter (task_matches lower q) ts)))"
  by (induction ts arbitrary: rem cnt) (auto simp: task_matches_def)

lemma filter_shorter_iff: "length (filter (\<lambda>x. \<not> P x) xs) < length xs \<longleftrightarrow> list_ex P xs"
  by (induction xs) (auto simp: less_Suc_eq_le)

lemma delete_tasks_loop_map:
  "delete_tasks_loop lower q ps visited cnt aff =
     (visited @ map (without_tasks (task_matches lower q)) ps,
      cnt + removed_total (task_matches lower q) ps,
      aff @ affected_names (task_matches lower q) ps)"
proof (induction ps arbitrary: visited cnt aff)
  case Nil
  then show ?case by (simp add: removed_total_def affected_names_def)
next
  case (Cons p ps)
  show ?case
    by (simp add: Cons.IH delete_tasks_inner_filter filter_shorter_iff without_tasks_def
        removed_total_def affected_names_def Let_def)
qed

lemma is_completed_fun: "is_completed = (\<lambda>t. get_status t = ''completed'')"
  by (simp add: fun_eq_iff is_completed_def)

lemma remove_completed_loop_map:
  "remove_completed_loop ps visited cnt aff =
     (visited @ map (without_tasks is_completed) ps,
      cnt + removed_total is_completed ps,
      aff @ affected_names is_completed ps)"
  unfolding is_completed_fun
proof (induction ps arbitrary: visited cnt aff)
  case Nil
  then show ?case by (simp add: removed_total_def affected_names_def)
next
  case (Cons p ps)
  have len: "int (length (get_tasks p))
      - int (length (filter (\<lambda>t. get_status t \<noteq> ''completed'') (get_tasks p)))
      = int (length (filter (\<lambda>t. get_status t = ''completed'') (get_tasks p)))"
    using sum_length_filter_compl[of "\<lambda>t. get_status t = ''completed''" "get_tasks p"] by simp
  show ?case
    by (auto simp add: Cons.IH len filter_shorter_iff without_tasks_def
        removed_total_def affected_names_def Let_def list_ex_iff filter_empty_conv)
qed

lemma removed_total_zero:
  "removed_total P ps = 0 \<longleftrightarrow> (\<forall>p \<in> set ps. \<not> list_ex P (get_tasks p))"
  by (simp add: removed_total_def list_ex_iff filter_empty_conv)

lemma removed_total_nonneg: "0 \<le> removed_total P ps"
  by (simp add: removed_total_def)

lemma without_tasks_id:
  "\<forall>p \<in> set ps. \<not> list_ex P (get_tasks p) \<Longrightarrow> map (without_tasks P) ps = ps"
  by (induction ps) (auto simp: without_tasks_def)

lemma get_tasks_without: "get_tasks (without_tasks P p) = filter (\<lambda>t. \<not> P t) (get_tasks p)"
  by (auto simp: without_tasks_def get_tasks_def list_ex_iff filter_id_conv split: option.splits)

lemma name_without: "p_name (without_tasks P p) = p_name p"
  "p_description (without_tasks P p) = p_description p"
  "p_due_date (without_tasks P p) = p_due_date p"
  "p_created_at (without_tasks P p) = p_created_at p"
  by (simp_all add: without_tasks_def)

lemma delete_tasks_by_name_result:
  "delete_tasks_by_name lower a q =
     (if get_projects (state a) = [] then
        (a, [(''action'', VStr ''delete_tasks_by_name''), (''status'', VStr ''error''),
             (''message'', VStr ''No projects found to search for tasks.'')])
      else
        (update_state a (Projects (map (without_tasks (task_matches lower q)) (get_projects (state a)))),
         if removed_total (task_matches lower q) (get_projects (state a)) = 0 then
           [(''action'', VStr ''delete_tasks_by_name''), (''status'', VStr ''not_found''),
            (''task_name'', VStr q),
            (''message'', VStr (''No tasks found with name containing '' @ quoted q @ ''.''))]
         else
           [(''action'', VStr ''delete_tasks_by_name''), (''status'', VStr ''success''),
            (''task_name'', VStr q),
            (''deleted_count'', VInt (removed_total (task_matches lower q) (get_projects (state a)))),
            (''affected_projects'', VStrList (affected_names (task_matches lower q) (get_projects (state a)))),
            (''message'', VStr (''Deleted ''
               @ str_int (removed_total (task_matches lower q) (get_projects (state a)))
               @ '' task(s) containing '' @ quoted q @ '' from project(s): ''
               @ join '', '' (affected_names (task_matches lower q) (get_projects (state a)))))]))"
  by (simp add: delete_tasks_by_name_def delete_tasks_loop_map Let_def)

lemma remove_completed_tasks_result:
  "remove_completed_tasks a =
     (if get_projects (state a) = [] then
        (a, [(''action'', VStr ''remove_completed_tasks''), (''status'', VStr ''error''),
             (''message'', VStr ''No projects found.'')])
      else
        (update_state a (Projects (map (without_tasks is_completed) (get_projects (state a)))),
         if removed_total is_completed (get_projects (state a)) = 0 then
           [(''action'', VStr ''remove_completed_tasks''), (''status'', VStr ''no_tasks''),
            (''message'', VStr ''No completed tasks found to remove.'')]
         else
           [(''action'', VStr ''remove_completed_tasks''), (''status'', VStr ''success''),
            (''removed_count'', VInt (removed_total is_completed (get_projects (state a)))),
            (''affected_projects'', VStrList (affected_names is_completed (get_projects (state a)))),
            (''message'', VStr (''Removed ''
               @ str_int (removed_total is_completed (get_projects (state a)))
               @ '' completed task(s) from project(s): ''
               @ join '', '' (affected_names is_completed (get_projects (state a)))))]))"
  by (simp add: remove_completed_tasks_def remove_completed_loop_map Let_def)

lemma update_state_same_projects:
  "get_projects (state a) \<noteq> [] \<Longrightarrow>
   state (update_state a (Projects (get_projects (state a)))) = state a"
  by (auto simp: update_state_def get_projects_def Let_def split: option.splits)




text \<open>
  C4 as stated fails on the state with no project: there is no completed task and nothing
  is removed, and the status is \<open>error\<close>, not \<open>no_tasks\<close>.
\<close>

theorem remove_completed_tasks_empty_counterexample:
  "get_projects (state (example_agent [] [])) = []
   \<and> fst (remove_completed_tasks (example_agent [] [])) = example_agent [] []
   \<and> map_of (snd (remove_completed_tasks (example_agent [] []))) ''status'' = Some (VStr ''error'')
   \<and> map_of (snd (remove_completed_tasks (example_agent [] []))) ''status''
       \<noteq> Some (VStr ''no_tasks'')"
proof -
  have e: "get_projects (state (example_agent [] [])) = []"
    by (simp add: example_agent_def get_projects_def)
  show ?thesis by (simp add: remove_completed_tasks_result e)
qed

text \<open>
  C4, as the code has it. On a state with at least one project, \<open>remove_completed_tasks\<close>
  removes from every project exactly the tasks whose status is the string \<open>completed\<close>
  (an absent status counts as \<open>pending\<close>); a task with any other status, \<open>Completed\<close>
  included, is kept. When nothing is removed, which is the case exactly when no task is
  completed, it reports \<open>no_tasks\<close> and the projects collection, and the whole state, is
  as before; otherwise it reports \<open>success\<close> with the number removed. On a state with no
  project it reports \<open>error\<close> and does nothing.
\<close>

theorem remove_completed_tasks_exact:
  "(get_projects (state a) = [] \<longrightarrow>
      remove_completed_tasks a =
        (a, [(''action'', VStr ''remove_completed_tasks''), (''status'', VStr ''error''),
             (''message'', VStr ''No projects found.'')]))
   \<and> (get_projects (state a) \<noteq> [] \<longrightarrow>
      map get_tasks (get_projects (state (fst (remove_completed_tasks a)))) =
        map (\<lambda>p. filter (\<lambda>t. get_status t \<noteq> ''completed'') (get_tasks p)) (get_projects (state a))
      \<and> map p_name (get_projects (state (fst (remove_completed_tasks a)))) =
        map p_name (get_projects (state a))
      \<and> get_projects (state (fst (remove_completed_tasks a))) =
        map (without_tasks is_completed) (get_projects (state a))
      \<and> ((\<forall>p \<in> set (get_projects (state a)). \<forall>t \<in> set (get_tasks p). get_status t \<noteq> ''completed'') \<longrightarrow>
           map_of (snd (remove_completed_tasks a)) ''status'' = Some (VStr ''no_tasks'')
           \<and> get_projects (state (fst (remove_completed_tasks a))) = get_projects (state a)
           \<and> state (fst (remove_completed_tasks a)) = state a)
      \<and> (\<not> (\<forall>p \<in> set (get_projects (state a)). \<forall>t \<in> set (get_tasks p). get_status t \<noteq> ''completed'') \<longrightarrow>
           map_of (snd (remove_completed_tasks a)) ''status'' = Some (VStr ''success'')
           \<and> map_of (snd (remove_completed_tasks a)) ''removed_count'' =
               Some (VInt (int (\<Sum>p\<leftarrow>get_projects (state a).
                                   length (filter (\<lambda>t. get_status t = ''completed'') (get_tasks p)))))))
   \<and> get_status (t\<lparr>t_status := Some ''Completed''\<rparr>) \<noteq> ''completed''
   \<and> get_status (t\<lparr>t_status := None\<rparr>) \<noteq> ''completed''"
proof (intro conjI impI)
  assume "get_projects (state a) = []"
  then show "remove_completed_tasks a =
        (a, [(''action'', VStr ''remove_completed_tasks''), (''status'', VStr ''error''),
             (''message'', VStr ''No projects found.'')])"
    by (simp add: remove_completed_tasks_result)
next
  assume ne: "get_projects (state a) \<noteq> []"
  then show ps': "get_projects (state (fst (remove_completed_tasks a))) =
        map (without_tasks is_completed) (get_projects (state a))"
    by (simp add: remove_completed_tasks_result update_state_projects)
  show "map get_tasks (get_projects (state (fst (remove_completed_tasks a)))) =
        map (\<lambda>p. filter (\<lambda>t. get_status t \<noteq> ''completed'') (get_tasks p)) (get_projects (state a))"
    by (simp add: ps' get_tasks_without comp_def is_completed_def)
  show "map p_name (get_projects (state (fst (remove_completed_tasks a)))) =
        map p_name (get_projects (state a))"
    by (simp add: ps' name_without comp_def)
next
  assume ne: "get_projects (state a) \<noteq> []"
    and none: "\<forall>p \<in> set (get_projects (state a)). \<forall>t \<in> set (get_tasks p). get_status t \<noteq> ''completed''"
  then have z: "removed_total is_completed (get_projects (state a)) = 0"
    by (simp add: removed_total_zero list_ex_iff is_completed_def)
  from ne z show "map_of (snd (remove_completed_tasks a)) ''status'' = Some (VStr ''no_tasks'')"
    by (simp add: remove_completed_tasks_result)
  from z have same: "map (without_tasks is_completed) (get_projects (state a)) = get_projects (state a)"
    by (intro without_tasks_id) (simp add: removed_total_zero)
  with ne show "get_projects (state (fst (remove_completed_tasks a))) = get_projects (state a)"
    by (simp add: remove_completed_tasks_result update_state_projects)
  from ne same show "state (fst (remove_completed_tasks a)) = state a"
    by (simp add: remove_completed_tasks_result update_state_same_projects)
next
  assume ne: "get_projects (state a) \<noteq> []"
    and some: "\<not> (\<forall>p \<in> set (get_projects (state a)). \<forall>t \<in> set (get_tasks p). get_status t \<noteq> ''completed'')"
  then have nz: "removed_total is_completed (get_projects (state a)) \<noteq> 0"
    by (simp add: removed_total_zero list_ex_iff is_completed_def)
  from ne nz show "map_of (snd (remove_completed_tasks a)) ''status'' = Some (VStr ''success'')"
    by (simp add: remove_completed_tasks_result)
  from ne nz show "map_of (snd (remove_completed_tasks a)) ''removed_count'' =
               Some (VInt (int (\<Sum>p\<leftarrow>get_projects (state a).
                                   length (filter (\<lambda>t. get_status t = ''completed'') (get_tasks p)))))"
    by (simp add: remove_completed_tasks_result removed_total_def is_completed_fun)
next
  show "get_status (t\<lparr>t_status := Some ''Completed''\<rparr>) \<noteq> ''completed''"
    by (simp add: get_status_def)
  show "get_status (t\<lparr>t_status := None\<rparr>) \<noteq> ''completed''"
    by (simp add: get_status_def)
qed

theorem remove_completed_tasks_exact_witness:
  "map (map (\<lambda>t. (t_name t, t_status t)) \<circ> get_tasks)
       (get_projects (state (fst (remove_completed_tasks design_agent))))
     = [[(''Design homepage'', Some ''pending'')],
        [(''Set up CI'', Some ''Completed''), (''Write tests'', Some ''pending'')]]
   \<and> map_of (snd (remove_completed_tasks design_agent)) ''removed_count'' = Some (VInt 1)
   \<and> map_of (snd (remove_completed_tasks alpha_agent)) ''status'' = Some (VStr ''no_tasks'')
   \<and> state (fst (remove_completed_tasks alpha_agent)) = state alpha_agent
   \<and> fst (remove_completed_tasks (example_agent [] [])) = example_agent [] []"
proof -
  have emp: "get_projects (state (example_agent [] [])) = []"
    by (simp add: example_agent_def get_projects_def)
  have e: "fst (remove_completed_tasks (example_agent [] [])) = example_agent [] []"
    using remove_completed_tasks_exact[of "example_agent [] []", THEN conjunct1, THEN mp, OF emp]
    by simp
  have ne: "get_projects (state design_agent) \<noteq> []" "get_projects (state alpha_agent) \<noteq> []"
    by (simp_all add: design_agent_projects alpha_agent_projects)
  have some: "\<not> (\<forall>p \<in> set (get_projects (state design_agent)).
      \<forall>t \<in> set (get_tasks p). get_status t \<noteq> ''completed'')"
    by (simp add: design_agent_projects example_project_def example_task_def get_tasks_def
        get_status_def)
  have none: "\<forall>p \<in> set (get_projects (state alpha_agent)).
      \<forall>t \<in> set (get_tasks p). get_status t \<noteq> ''completed''"
    by (simp add: alpha_agent_projects example_project_def example_task_def get_tasks_def
        get_status_def)
  note d = remove_completed_tasks_exact[of design_agent, THEN conjunct2, THEN conjunct1,
      THEN mp, OF ne(1)]
  note al = remove_completed_tasks_exact[of alpha_agent, THEN conjunct2, THEN conjunct1,
      THEN mp, OF ne(2)]
  have x: "map (map (\<lambda>t. (t_name t, t_status t)) \<circ> get_tasks)
       (get_projects (state (fst (remove_completed_tasks design_agent))))
     = [[(''Design homepage'', Some ''pending'')],
        [(''Set up CI'', Some ''Completed''), (''Write tests'', Some ''pending'')]]"
  proof -
    have "map (map (\<lambda>t. (t_name t, t_status t)) \<circ> get_tasks)
       (get_projects (state (fst (remove_completed_tasks design_agent)))) =
      map (map (\<lambda>t. (t_name t, t_status t)))
        (map get_tasks (get_projects (state (fst (remove_completed_tasks design_agent)))))"
      by simp
    also have "\<dots> = [[(''Design homepage'', Some ''pending'')],
        [(''Set up CI'', Some ''Completed''), (''Write tests'', Some ''pending'')]]"
      unfolding d[THEN conjunct1]
      by (simp add: design_agent_projects example_project_def example_task_def get_tasks_def
        get_status_def)
    finally show ?thesis .
  qed
  have y: "map_of (snd (remove_completed_tasks design_agent)) ''removed_count'' = Some (VInt 1)"
    using d some
    by (simp add: design_agent_projects example_project_def example_task_def get_tasks_def
        get_status_def)
  have z: "map_of (snd (remove_completed_tasks alpha_agent)) ''status'' = Some (VStr ''no_tasks'')
      \<and> state (fst (remove_completed_tasks alpha_agent)) = state alpha_agent"
    using al none by simp
  show ?thesis by (simp only: x y z e simp_thms)
qed

text \<open>
  C10. Whatever the lower-casing function and the verdict of the date parser are:
  whenever the projects collection is non-empty, \<open>delete_tasks_by_name\<close> and
  \<open>remove_completed_tasks\<close> write the session exactly once, also on a run that removes
  nothing and reports \<open>not_found\<close> or \<open>no_tasks\<close>: the state then has the value it had, and
  that state is written again. The other non-success paths (empty projects collection,
  index out of range, date validation error) return without any write.
\<close>

theorem bulk_operations_always_persist:
  "(get_projects (state a) \<noteq> [] \<longrightarrow>
      persisted (fst (delete_tasks_by_name lower a q)) =
        persisted a @ [(session_id a, state (fst (delete_tasks_by_name lower a q)))]
      \<and> persisted (fst (remove_completed_tasks a)) =
        persisted a @ [(session_id a, state (fst (remove_completed_tasks a)))])
   \<and> (get_projects (state a) \<noteq> []
        \<and> (\<forall>p \<in> set (get_projects (state a)). \<forall>t \<in> set (get_tasks p). \<not> task_matches lower q t) \<longrightarrow>
      map_of (snd (delete_tasks_by_name lower a q)) ''status'' = Some (VStr ''not_found'')
      \<and> state (fst (delete_tasks_by_name lower a q)) = state a
      \<and> persisted (fst (delete_tasks_by_name lower a q)) = persisted a @ [(session_id a, state a)])
   \<and> (get_projects (state a) \<noteq> []
        \<and> (\<forall>p \<in> set (get_projects (state a)). \<forall>t \<in> set (get_tasks p). get_status t \<noteq> ''completed'') \<longrightarrow>
      map_of (snd (remove_completed_tasks a)) ''status'' = Some (VStr ''no_tasks'')
      \<and> state (fst (remove_completed_tasks a)) = state a
      \<and> persisted (fst (remove_completed_tasks a)) = persisted a @ [(session_id a, state a)])
   \<and> (get_projects (state a) = [] \<longrightarrow>
      persisted (fst (delete_tasks_by_name lower a q)) = persisted a
      \<and> persisted (fst (remove_completed_tasks a)) = persisted a)
   \<and> (i < 1 \<or> int (length (get_projects (state a))) < i \<longrightarrow>
      add_task today a i n at d dd pr \<noteq> Inl KeyError
      \<and> (\<forall>a' r. add_task today a i n at d dd pr = Inr (a', r) \<longrightarrow> persisted a' = persisted a)
      \<and> persisted (fst (delete_project a i)) = persisted a)
   \<and> (i < 1 \<or> int (length (get_team_members (state a))) < i \<longrightarrow>
      persisted (fst (update_team_member a i mn mr me)) = persisted a
      \<and> persisted (fst (delete_team_member a i)) = persisted a)
   \<and> (due \<noteq> [] \<and> \<not> valid_Ymd due \<longrightarrow>
      persisted (fst (add_project valid_Ymd today a n d (Some due))) = persisted a)"
proof (intro conjI impI)
  assume ne: "get_projects (state a) \<noteq> []"
  then show "persisted (fst (delete_tasks_by_name lower a q)) =
        persisted a @ [(session_id a, state (fst (delete_tasks_by_name lower a q)))]"
    by (simp add: delete_tasks_by_name_result update_state_projects)
  from ne show "persisted (fst (remove_completed_tasks a)) =
        persisted a @ [(session_id a, state (fst (remove_completed_tasks a)))]"
    by (simp add: remove_completed_tasks_result update_state_projects)
next
  assume h: "get_projects (state a) \<noteq> []
        \<and> (\<forall>p \<in> set (get_projects (state a)). \<forall>t \<in> set (get_tasks p). \<not> task_matches lower q t)"
  then have z: "removed_total (task_matches lower q) (get_projects (state a)) = 0"
    by (simp add: removed_total_zero list_ex_iff)
  then have same: "map (without_tasks (task_matches lower q)) (get_projects (state a)) = get_projects (state a)"
    by (intro without_tasks_id) (simp add: removed_total_zero)
  from h z show "map_of (snd (delete_tasks_by_name lower a q)) ''status'' = Some (VStr ''not_found'')"
    by (simp add: delete_tasks_by_name_result)
  from h same show st: "state (fst (delete_tasks_by_name lower a q)) = state a"
    by (simp add: delete_tasks_by_name_result update_state_same_projects)
  from h have "persisted (fst (delete_tasks_by_name lower a q)) =
        persisted a @ [(session_id a, state (fst (delete_tasks_by_name lower a q)))]"
    by (simp add: delete_tasks_by_name_result update_state_projects)
  then show "persisted (fst (delete_tasks_by_name lower a q)) = persisted a @ [(session_id a, state a)]"
    by (simp only: st)
next
  assume h: "get_projects (state a) \<noteq> []
        \<and> (\<forall>p \<in> set (get_projects (state a)). \<forall>t \<in> set (get_tasks p). get_status t \<noteq> ''completed'')"
  then have z: "removed_total is_completed (get_projects (state a)) = 0"
    by (simp add: removed_total_zero list_ex_iff is_completed_def)
  then have same: "map (without_tasks is_completed) (get_projects (state a)) = get_projects (state a)"
    by (intro without_tasks_id) (simp add: removed_total_zero)
  from h z show "map_of (snd (remove_completed_tasks a)) ''status'' = Some (VStr ''no_tasks'')"
    by (simp add: remove_completed_tasks_result)
  from h same show st: "state (fst (remove_completed_tasks a)) = state a"
    by (simp add: remove_completed_tasks_result update_state_same_projects)
  from h have "persisted (fst (remove_completed_tasks a)) =
        persisted a @ [(session_id a, state (fst (remove_completed_tasks a)))]"
    by (simp add: remove_completed_tasks_result update_state_projects)
  then show "persisted (fst (remove_completed_tasks a)) = persisted a @ [(session_id a, state a)]"
    by (simp only: st)
next
  assume e: "get_projects (state a) = []"
  then show "persisted (fst (delete_tasks_by_name lower a q)) = persisted a"
    by (simp add: delete_tasks_by_name_result)
  from e show "persisted (fst (remove_completed_tasks a)) = persisted a"
    by (simp add: remove_completed_tasks_result)
next
  assume o: "i < 1 \<or> int (length (get_projects (state a))) < i"
  then show "add_task today a i n at d dd pr \<noteq> Inl KeyError"
    by (simp add: add_task_out_of_range)
  from o show "\<forall>a' r. add_task today a i n at d dd pr = Inr (a', r) \<longrightarrow> persisted a' = persisted a"
    by (auto simp: add_task_out_of_range)
  from o show "persisted (fst (delete_project a i)) = persisted a"
    by (simp add: delete_project_out_of_range)
next
  assume o: "i < 1 \<or> int (length (get_team_members (state a))) < i"
  then show "persisted (fst (update_team_member a i mn mr me)) = persisted a"
    by (simp add: update_team_member_out_of_range)
  from o show "persisted (fst (delete_team_member a i)) = persisted a"
    by (simp add: delete_team_member_out_of_range)
next
  assume "due \<noteq> [] \<and> \<not> valid_Ymd due"
  then show "persisted (fst (add_project valid_Ymd today a n d (Some due))) = persisted a"
    by (simp add: add_project_invalid)
qed

theorem bulk_operations_always_persist_witness:
  "persisted (fst (delete_tasks_by_name ascii_lower alpha_agent ''zzz'')) = [(''session-1'', state alpha_agent)]
   \<and> map_of (snd (delete_tasks_by_name ascii_lower alpha_agent ''zzz'')) ''status'' = Some (VStr ''not_found'')
   \<and> persisted (fst (remove_completed_tasks alpha_agent)) = [(''session-1'', state alpha_agent)]
   \<and> map_of (snd (remove_completed_tasks alpha_agent)) ''status'' = Some (VStr ''no_tasks'')
   \<and> persisted (fst (remove_completed_tasks (example_agent [] []))) = []
   \<and> persisted (fst (delete_project alpha_agent 2)) = []
   \<and> persisted (fst (update_team_member alpha_agent 2 None (Some ''Sales'') None)) = []
   \<and> persisted (fst (add_project ascii_valid_Ymd ''2025-01-15'' alpha_agent ''Intranet'' None (Some ''31-12-2025''))) = []
   \<and> length (persisted (fst (delete_tasks_by_name ascii_lower design_agent ''Design''))) = 1
   \<and> length (persisted (fst (remove_completed_tasks design_agent))) = 1"
proof -
  have h5: "2 < (1::int) \<or> int (length (get_team_members (state alpha_agent))) < 2"
    by (simp add: alpha_agent_def example_agent_def get_team_members_def)
  have h6: "''31-12-2025'' \<noteq> [] \<and> \<not> ascii_valid_Ymd ''31-12-2025''"
    by (simp add: day_first_does_not_parse)
  have h7: "get_projects (state design_agent) \<noteq> []"
    by (simp add: design_agent_projects)
  have p1: "persisted design_agent = []"
    by (simp add: design_agent_def example_agent_def)
  have h1: "get_projects (state alpha_agent) \<noteq> []
        \<and> (\<forall>p \<in> set (get_projects (state alpha_agent)). \<forall>t \<in> set (get_tasks p). \<not> task_matches ascii_lower ''zzz'' t)"
    by (simp add: alpha_agent_projects example_project_def example_task_def get_tasks_def
        task_matches_def ascii_lower_def lower_char_def)
  have h2: "get_projects (state alpha_agent) \<noteq> []
        \<and> (\<forall>p \<in> set (get_projects (state alpha_agent)). \<forall>t \<in> set (get_tasks p). get_status t \<noteq> ''completed'')"
    by (simp add: alpha_agent_projects example_project_def example_task_def get_tasks_def
        get_status_def)
  have h3: "get_projects (state (example_agent [] [])) = []"
    by (simp add: example_agent_def get_projects_def)
  have h4: "2 < (1::int) \<or> int (length (get_projects (state alpha_agent))) < 2"
    by (simp add: alpha_agent_projects)
  have p0: "persisted alpha_agent = []" "session_id alpha_agent = ''session-1''"
    "persisted (example_agent [] []) = []"
    by (simp_all add: alpha_agent_def example_agent_def)
  note t = bulk_operations_always_persist[where lower = ascii_lower and valid_Ymd = ascii_valid_Ymd and a = alpha_agent and q = "''zzz''" and i = 2]
  note e = bulk_operations_always_persist[where lower = ascii_lower and valid_Ymd = ascii_valid_Ymd and a = "example_agent [] []" and q = "''zzz''"]
  have a: "persisted (fst (delete_tasks_by_name ascii_lower alpha_agent ''zzz'')) = [(''session-1'', state alpha_agent)]
   \<and> map_of (snd (delete_tasks_by_name ascii_lower alpha_agent ''zzz'')) ''status'' = Some (VStr ''not_found'')"
    using t[THEN conjunct2, THEN conjunct1, THEN mp, OF h1] by (simp add: p0)
  have b: "persisted (fst (remove_completed_tasks alpha_agent)) = [(''session-1'', state alpha_agent)]
   \<and> map_of (snd (remove_completed_tasks alpha_agent)) ''status'' = Some (VStr ''no_tasks'')"
    using t[THEN conjunct2, THEN conjunct2, THEN conjunct1, THEN mp, OF h2] by (simp add: p0)
  have c: "persisted (fst (remove_completed_tasks (example_agent [] []))) = []"
    using e[THEN conjunct2, THEN conjunct2, THEN conjunct2, THEN conjunct1, THEN mp, OF h3]
    by (simp add: p0)
  have d: "persisted (fst (delete_project alpha_agent 2)) = []"
    using t[THEN conjunct2, THEN conjunct2, THEN conjunct2, THEN conjunct2, THEN conjunct1,
        THEN mp, OF h4]
    by (simp add: p0)
  have f: "persisted (fst (update_team_member alpha_agent 2 None (Some ''Sales'') None)) = []"
    using bulk_operations_always_persist[where lower = ascii_lower and valid_Ymd = ascii_valid_Ymd and a = alpha_agent and i = 2 and mn = None
        and mr = "Some ''Sales''" and me = None,
        THEN conjunct2, THEN conjunct2, THEN conjunct2, THEN conjunct2, THEN conjunct2,
        THEN conjunct1, THEN mp, OF h5]
    by (simp add: p0)
  have g: "persisted (fst (add_project ascii_valid_Ymd ''2025-01-15'' alpha_agent ''Intranet'' None (Some ''31-12-2025''))) = []"
    using bulk_operations_always_persist[where lower = ascii_lower and valid_Ymd = ascii_valid_Ymd and a = alpha_agent and due = "''31-12-2025''"
        and today = "''2025-01-15''" and n = "''Intranet''" and d = None,
        THEN conjunct2, THEN conjunct2, THEN conjunct2, THEN conjunct2, THEN conjunct2,
        THEN conjunct2, THEN mp, OF h6]
    by (simp add: p0)
  have k: "length (persisted (fst (delete_tasks_by_name ascii_lower design_agent ''Design''))) = 1
   \<and> length (persisted (fst (remove_completed_tasks design_agent))) = 1"
    using bulk_operations_always_persist[where lower = ascii_lower and valid_Ymd = ascii_valid_Ymd and a = design_agent and q = "''Design''",
        THEN conjunct1, THEN mp, OF h7]
    by (simp add: p1)
  show ?thesis by (simp only: a b c d f g k simp_thms)
qed

end
